theory Spec2Isabelle
  imports Main
begin

section \<open>Data model\<close>

text \<open>
  The records follow \<^verbatim>\<open>types/coffee.ts\<close> and \<^verbatim>\<open>store/cart-store.ts\<close>. Only the
  fields that the cart, the reservation logic and the checkout read or write are kept.
  JavaScript numbers holding stock counts, quantities and prices in cents are integers
  here (\<^typ>\<open>int\<close>), timestamps are milliseconds since the epoch.
  The source's \<^verbatim>\<open>_id\<close> and \<^verbatim>\<open>_uid\<close> are not Isabelle identifiers and get a prefix.
\<close>

record CoffeeProduct =
  p_id :: string
  name :: string
  price :: int

record InventoryItem =
  inv_id :: string
  inv_uid :: string
  product_id :: string
  current_stock :: int
  reserved_stock :: int
  total_sold :: int

record ProductWithInventory =
  product :: CoffeeProduct
  inventory :: InventoryItem
  available_stock :: int

text \<open>
  \<^verbatim>\<open>CartItem.product\<close> is \<open>cproduct\<close> (the name \<open>product\<close> is taken by the record above);
  \<^verbatim>\<open>reservationId?: string\<close> is an optional string, \<^verbatim>\<open>addedAt\<close> is the time that
  \<^verbatim>\<open>new Date(item.addedAt).getTime()\<close> reads back from the ISO string.
\<close>

record CartItem =
  cproduct :: ProductWithInventory
  quantity :: int
  reservationId :: "string option"
  addedAt :: int

record OrderLine =
  ol_product_id :: string
  ol_name :: string
  ol_quantity :: int
  ol_price :: int
  ol_total :: int

record Order =
  order_number :: string
  customer_email :: string
  order_items :: "OrderLine list"
  subtotal :: int
  shipping_cost :: int
  tax_amount :: int
  total_amount :: int

text \<open>
  The state the code works on: the cart store (\<^verbatim>\<open>items\<close>, \<^verbatim>\<open>isOpen\<close>, the keys of
  the \<^verbatim>\<open>reservationTimeouts\<close> map, that is the tokens with a pending timer) and the two
  remote tables it reads and writes, the inventory table \<^verbatim>\<open>evn000r9yk8w\<close> and the orders
  table \<^verbatim>\<open>evn0gqq0jvuo\<close>, each a list of rows. Calls to the table service are taken to
  succeed: the \<^verbatim>\<open>catch\<close> branches for a rejected network call are not modelled.
\<close>

record state =
  items :: "CartItem list"
  isOpen :: bool
  reservationTimeouts :: "string set"
  inventory_table :: "InventoryItem list"
  orders_table :: "Order list"

section \<open>The table service\<close>

text \<open>
  \<^verbatim>\<open>table.getItems('evn000r9yk8w', { query: { product_id }, limit: 1 })\<close> followed by
  \<^verbatim>\<open>items.length === 0\<close> / \<^verbatim>\<open>items[0]\<close>: the first row for the product, if any.
\<close>

definition getInventory :: "InventoryItem list \<Rightarrow> string \<Rightarrow> InventoryItem option" where
  "getInventory tbl productId = find (\<lambda>r. product_id r = productId) tbl"

text \<open>
  \<^verbatim>\<open>table.updateItem(t, { _uid, _id, ...fields })\<close>: the row with that key gets the fields
  written, here as a function \<open>f\<close> on the row; every other row is left as it is.
\<close>

definition updateItem ::
  "InventoryItem list \<Rightarrow> string \<Rightarrow> string \<Rightarrow> (InventoryItem \<Rightarrow> InventoryItem) \<Rightarrow> InventoryItem list"
where
  "updateItem tbl uid rid f = map (\<lambda>r. if inv_uid r = uid \<and> inv_id r = rid then f r else r) tbl"

section \<open>The cart store\<close>

definition RESERVATION_TIMEOUT :: int where
  "RESERVATION_TIMEOUT = 15 * 60 * 1000"

text \<open>JavaScript truthiness of an optional string: \<^verbatim>\<open>undefined\<close>, \<^verbatim>\<open>null\<close> and \<^verbatim>\<open>''\<close> are falsy.\<close>

definition truthy :: "string option \<Rightarrow> bool" where
  "truthy r = (case r of None \<Rightarrow> False | Some t \<Rightarrow> t \<noteq> [])"

definition itemProductId :: "CartItem \<Rightarrow> string" where
  "itemProductId item = p_id (product (cproduct item))"

text \<open>
  \<^verbatim>\<open>reserveInventory\<close>. The token is \<^verbatim>\<open>`res_${Date.now()}_${Math.random()...}`\<close>; the clock
  reading and the random suffix come from the environment as the strings \<open>stamp\<close> and
  \<open>rnd\<close>. There is no comparison with the available stock in this function.
\<close>

definition reserveInventory ::
  "string \<Rightarrow> int \<Rightarrow> string \<Rightarrow> string \<Rightarrow> state \<Rightarrow> string option \<times> state"
where
  "reserveInventory productId qty stamp rnd s =
     (let reservationId = ''res_'' @ stamp @ ''_'' @ rnd in
      case getInventory (inventory_table s) productId of
        None \<Rightarrow> (None, s)
      | Some row \<Rightarrow>
          (let newReservedStock = reserved_stock row + qty in
           (Some reservationId,
            s\<lparr>inventory_table :=
                 updateItem (inventory_table s) (inv_uid row) (inv_id row)
                   (\<lambda>r. r\<lparr>reserved_stock := newReservedStock\<rparr>)\<rparr>)))"

text \<open>
  \<^verbatim>\<open>releaseReservation\<close>: the line is looked up by its token; with no such line the call
  returns at once. Otherwise the row of the line's product (if there is one) gets
  \<^verbatim>\<open>Math.max(0, reserved_stock - item.quantity)\<close>, the timer is cleared and every line
  with the token is filtered out of the cart.
\<close>

definition releaseReservation :: "string \<Rightarrow> state \<Rightarrow> state" where
  "releaseReservation reservationId' s =
     (case find (\<lambda>item. reservationId item = Some reservationId') (items s) of
        None \<Rightarrow> s
      | Some item \<Rightarrow>
          (let tbl = (case getInventory (inventory_table s) (itemProductId item) of
                        None \<Rightarrow> inventory_table s
                      | Some row \<Rightarrow>
                          (let newReservedStock = max 0 (reserved_stock row - quantity item) in
                           updateItem (inventory_table s) (inv_uid row) (inv_id row)
                             (\<lambda>r. r\<lparr>reserved_stock := newReservedStock\<rparr>)))
           in s\<lparr>inventory_table := tbl,
                reservationTimeouts := reservationTimeouts s - {reservationId'},
                items := filter (\<lambda>item. reservationId item \<noteq> Some reservationId') (items s)\<rparr>))"

text \<open>
  \<^verbatim>\<open>addItem\<close>. \<open>now\<close> is the time written to \<^verbatim>\<open>addedAt\<close> of a new line. The result is
  the boolean the caller branches on, and the new state.
\<close>

definition addItem ::
  "ProductWithInventory \<Rightarrow> int \<Rightarrow> string \<Rightarrow> string \<Rightarrow> int \<Rightarrow> state \<Rightarrow> bool \<times> state"
where
  "addItem pwi qty stamp rnd now s =
     (let existingItem = find (\<lambda>item. itemProductId item = p_id (product pwi)) (items s);
          currentQuantity = (case existingItem of None \<Rightarrow> 0 | Some item \<Rightarrow> quantity item);
          totalQuantity = currentQuantity + qty;
          availableStock = available_stock pwi
      in if totalQuantity > availableStock then (False, s)
         else (case reserveInventory (p_id (product pwi)) qty stamp rnd s of
                 (r, s1) \<Rightarrow>
                   if \<not> truthy r then (False, s1)
                   else
                     (let newItems =
                            (case existingItem of
                               Some _ \<Rightarrow>
                                 map (\<lambda>item. if itemProductId item = p_id (product pwi)
                                              then item\<lparr>quantity := totalQuantity, reservationId := r\<rparr>
                                              else item) (items s1)
                             | None \<Rightarrow>
                                 items s1 @ [\<lparr>cproduct = pwi, quantity = qty,
                                              reservationId = r, addedAt = now\<rparr>])
                      in (True, s1\<lparr>items := newItems,
                                   reservationTimeouts :=
                                     (case r of None \<Rightarrow> reservationTimeouts s1
                                      | Some t \<Rightarrow> insert t (reservationTimeouts s1))\<rparr>))))"

definition removeItem :: "string \<Rightarrow> state \<Rightarrow> state" where
  "removeItem productId s =
     (let s1 = (case find (\<lambda>item. itemProductId item = productId) (items s) of
                  None \<Rightarrow> s
                | Some item \<Rightarrow>
                    (case reservationId item of
                       None \<Rightarrow> s
                     | Some t \<Rightarrow> if t \<noteq> [] then releaseReservation t s else s))
      in s1\<lparr>items := filter (\<lambda>item. itemProductId item \<noteq> productId) (items s1)\<rparr>)"

definition updateQuantity ::
  "string \<Rightarrow> int \<Rightarrow> string \<Rightarrow> string \<Rightarrow> state \<Rightarrow> bool \<times> state"
where
  "updateQuantity productId qty stamp rnd s =
     (if qty \<le> 0 then (True, removeItem productId s)
      else
        (case find (\<lambda>item. itemProductId item = productId) (items s) of
           None \<Rightarrow> (False, s)
         | Some item \<Rightarrow>
             (let availableStock = available_stock (cproduct item) + quantity item
              in if qty > availableStock then (False, s)
                 else
                   (let s1 = (case reservationId item of
                                None \<Rightarrow> s
                              | Some t \<Rightarrow> if t \<noteq> [] then releaseReservation t s else s)
                    in case reserveInventory productId qty stamp rnd s1 of
                         (r, s2) \<Rightarrow>
                           if \<not> truthy r then (False, s2)
                           else (True,
                                 s2\<lparr>items :=
                                      map (\<lambda>item. if itemProductId item = productId
                                                   then item\<lparr>quantity := qty, reservationId := r\<rparr>
                                                   else item) (items s2)\<rparr>)))))"

text \<open>
  The loop of \<^verbatim>\<open>clearCart\<close> runs over the list read before the loop; each release
  works on the state of its moment.
\<close>

fun releaseAll :: "CartItem list \<Rightarrow> state \<Rightarrow> state" where
  "releaseAll [] s = s"
| "releaseAll (item # rest) s =
     releaseAll rest
       (case reservationId item of
          None \<Rightarrow> s
        | Some t \<Rightarrow> if t \<noteq> [] then releaseReservation t s else s)"

definition clearCart :: "state \<Rightarrow> state" where
  "clearCart s = (releaseAll (items s) s)\<lparr>items := []\<rparr>"

definition closeCart :: "state \<Rightarrow> state" where
  "closeCart s = s\<lparr>isOpen := False\<rparr>"

definition getTotalItems :: "state \<Rightarrow> int" where
  "getTotalItems s = foldl (\<lambda>total item. total + quantity item) 0 (items s)"

definition getTotalPrice :: "state \<Rightarrow> int" where
  "getTotalPrice s =
     foldl (\<lambda>total item. total + price (product (cproduct item)) * quantity item) 0 (items s)"

text \<open>
  \<^verbatim>\<open>refreshReservations\<close>, with the clock reading \<open>now\<close> of \<^verbatim>\<open>Date.now()\<close> (one reading
  for the whole loop).
\<close>

fun refreshLoop :: "int \<Rightarrow> CartItem list \<Rightarrow> state \<Rightarrow> state" where
  "refreshLoop now [] s = s"
| "refreshLoop now (item # rest) s =
     refreshLoop now rest
       (case reservationId item of
          None \<Rightarrow> s
        | Some t \<Rightarrow>
            if t \<noteq> [] then
              (let timeElapsed = now - addedAt item
               in if timeElapsed > RESERVATION_TIMEOUT then releaseReservation t s else s)
            else s)"

definition refreshReservations :: "int \<Rightarrow> state \<Rightarrow> state" where
  "refreshReservations now s = refreshLoop now (items s) s"

section \<open>Checkout\<close>

text \<open>
  \<^verbatim>\<open>handleCheckout\<close> of the cart drawer. \<open>isAuthenticated\<close> and the user's e-mail come
  from the auth store, \<open>stamp\<close> is the decimal rendering of \<^verbatim>\<open>Date.now()\<close>.
  \<^verbatim>\<open>Math.round(subtotal * 0.08)\<close> rounds half up; on an integer subtotal that is
  \<open>(8 * subtotal + 50) div 100\<close>, and the floating-point product cannot change it, since
  \<open>8 * subtotal\<close> is never 50 modulo 100: the exact value stays 0.02 away from every half.
\<close>

definition orderLine :: "CartItem \<Rightarrow> OrderLine" where
  "orderLine item =
     \<lparr>ol_product_id = itemProductId item,
      ol_name = name (product (cproduct item)),
      ol_quantity = quantity item,
      ol_price = price (product (cproduct item)),
      ol_total = price (product (cproduct item)) * quantity item\<rparr>"

text \<open>The loop "convert reservations to actual sales": one read and one write per line.\<close>

fun commitInventory :: "CartItem list \<Rightarrow> InventoryItem list \<Rightarrow> InventoryItem list" where
  "commitInventory [] tbl = tbl"
| "commitInventory (item # rest) tbl =
     commitInventory rest
       (case getInventory tbl (itemProductId item) of
          None \<Rightarrow> tbl
        | Some row \<Rightarrow>
            updateItem tbl (inv_uid row) (inv_id row)
              (\<lambda>r. r\<lparr>current_stock := current_stock row - quantity item,
                      reserved_stock := max 0 (reserved_stock row - quantity item),
                      total_sold := total_sold row + quantity item\<rparr>))"

definition makeOrder :: "string \<Rightarrow> string \<Rightarrow> state \<Rightarrow> Order" where
  "makeOrder email stamp s =
     (let orderNumber = ''AC'' @ drop (length stamp - 8) stamp;
          subtotal' = getTotalPrice s;
          shippingCost = (if subtotal' > 5000 then 0 else 500);
          taxAmount = (subtotal' * 8 + 50) div 100;
          totalAmount = subtotal' + shippingCost + taxAmount
      in \<lparr>order_number = orderNumber, customer_email = email,
           order_items = map orderLine (items s),
           subtotal = subtotal', shipping_cost = shippingCost,
           tax_amount = taxAmount, total_amount = totalAmount\<rparr>)"

definition handleCheckout :: "bool \<Rightarrow> string \<Rightarrow> string \<Rightarrow> state \<Rightarrow> state" where
  "handleCheckout isAuthenticated email stamp s =
     (if \<not> isAuthenticated then s
      else if length (items s) = 0 then s
      else
        (let s1 = s\<lparr>orders_table := orders_table s @ [makeOrder email stamp s]\<rparr>;
             s2 = s1\<lparr>inventory_table := commitInventory (items s) (inventory_table s1)\<rparr>
         in closeCart (clearCart s2)))"

section \<open>The inventory hook and the data service\<close>

text \<open>
  \<^verbatim>\<open>reserveStock\<close> and \<^verbatim>\<open>releaseReservedStock\<close> of \<^verbatim>\<open>useInventoryManagement\<close>: they work
  on the inventory table alone; a thrown \<^verbatim>\<open>Error\<close> is \<open>Inl\<close> of its message.
\<close>

definition reserveStock :: "string \<Rightarrow> int \<Rightarrow> InventoryItem list \<Rightarrow> string + InventoryItem list" where
  "reserveStock productId qty tbl =
     (case getInventory tbl productId of
        None \<Rightarrow> Inl ''Product not found in inventory''
      | Some row \<Rightarrow>
          (let available = max 0 (current_stock row - reserved_stock row)
           in if available < qty then Inl ''Insufficient stock available''
              else Inr (updateItem tbl (inv_uid row) (inv_id row)
                          (\<lambda>r. r\<lparr>reserved_stock := reserved_stock row + qty\<rparr>))))"

definition releaseReservedStock :: "string \<Rightarrow> int \<Rightarrow> InventoryItem list \<Rightarrow> string + InventoryItem list" where
  "releaseReservedStock productId qty tbl =
     (case getInventory tbl productId of
        None \<Rightarrow> Inl ''Product not found in inventory''
      | Some row \<Rightarrow>
          Inr (updateItem tbl (inv_uid row) (inv_id row)
                 (\<lambda>r. r\<lparr>reserved_stock := max 0 (reserved_stock row - qty)\<rparr>)))"

text \<open>The local \<^verbatim>\<open>available\<close> of the \<^verbatim>\<open>forEach\<close> in \<^verbatim>\<open>loadInventoryStats\<close>.\<close>

definition statsAvailable :: "InventoryItem \<Rightarrow> int" where
  "statsAvailable item = max 0 (current_stock item - reserved_stock item)"

text \<open>
  \<^verbatim>\<open>CoffeeDataService.getProductsWithInventory\<close>, on the list \<open>products\<close> that
  \<^verbatim>\<open>getAllProducts\<close> returned. \<^verbatim>\<open>sort((a, b) => b.available_stock - a.available_stock)\<close> is
  a stable sort, descending.
\<close>

fun withInventory :: "CoffeeProduct list \<Rightarrow> InventoryItem list \<Rightarrow> ProductWithInventory list" where
  "withInventory [] tbl = []"
| "withInventory (p # ps) tbl =
     (case getInventory tbl (p_id p) of
        None \<Rightarrow> withInventory ps tbl
      | Some row \<Rightarrow>
          \<lparr>product = p, inventory = row,
           available_stock = max 0 (current_stock row - reserved_stock row)\<rparr>
          # withInventory ps tbl)"

definition getProductsWithInventory :: "CoffeeProduct list \<Rightarrow> InventoryItem list \<Rightarrow> ProductWithInventory list" where
  "getProductsWithInventory products tbl =
     sort_key (\<lambda>e. - available_stock e) (withInventory products tbl)"

definition checkProductAvailability :: "InventoryItem list \<Rightarrow> string \<Rightarrow> int \<Rightarrow> bool" where
  "checkProductAvailability tbl productId qty =
     (case getInventory tbl productId of
        None \<Rightarrow> False
      | Some row \<Rightarrow>
          (let available = current_stock row - reserved_stock row
           in available \<ge> qty))"

text \<open>
  \<^verbatim>\<open>loadProducts\<close> of \<^verbatim>\<open>useCoffeeDatabase\<close>, on the list \<open>products\<close> that the products
  table returned. The inventory response is the first 100 rows of the inventory table, and
  \<^verbatim>\<open>inventoryMap.set(item.product_id, item)\<close>, called for the rows in their order, keeps for
  each product the last of its rows. An entry is the product (\<^verbatim>\<open>...product\<close>, here the field
  \<open>lp_product\<close>) with the row found for it, if any, and the available stock, which is 0
  without a row; the \<^verbatim>\<open>stock_status\<close> copied from the row is not kept.
\<close>

record LoadedProduct =
  lp_product :: CoffeeProduct
  lp_inventory :: "InventoryItem option"
  lp_available_stock :: int

definition inventoryMap :: "InventoryItem list \<Rightarrow> string \<Rightarrow> InventoryItem option" where
  "inventoryMap rows = fold (\<lambda>item m. m(product_id item \<mapsto> item)) rows Map.empty"

definition loadProducts :: "CoffeeProduct list \<Rightarrow> InventoryItem list \<Rightarrow> LoadedProduct list" where
  "loadProducts products tbl =
     (let inventoryResponse = take 100 tbl;
          m = inventoryMap inventoryResponse
      in map (\<lambda>p. let inventory = m (p_id p)
                  in \<lparr>lp_product = p, lp_inventory = inventory,
                      lp_available_stock =
                        (case inventory of
                           Some i \<Rightarrow> max 0 (current_stock i - reserved_stock i)
                         | None \<Rightarrow> 0)\<rparr>) products)"

text \<open>The local \<^verbatim>\<open>availableStock\<close> of \<^verbatim>\<open>calculateTotalStockValue\<close> in the inventory analytics.\<close>

definition analyticsAvailable :: "InventoryItem \<Rightarrow> int" where
  "analyticsAvailable row = max 0 (current_stock row - reserved_stock row)"

section \<open>Well-formed states and auxiliary notions\<close>

text \<open>The key \<^verbatim>\<open>(_uid, _id)\<close> under which the table service addresses a row.\<close>

definition rowKey :: "InventoryItem \<Rightarrow> string \<times> string" where
  "rowKey r = (inv_uid r, inv_id r)"

text \<open>
  Two invariants of the cart: \<^verbatim>\<open>addItem\<close> merges into the line of a product that is
  already in the cart, so no product has two lines; and tokens are generated from the clock
  and a random suffix, so no two lines hold the same token.
\<close>

definition distinctProducts :: "CartItem list \<Rightarrow> bool" where
  "distinctProducts its = distinct (map itemProductId its)"

definition uniqueTokens :: "CartItem list \<Rightarrow> bool" where
  "uniqueTokens its =
     (\<forall>i \<in> set its. \<forall>j \<in> set its.
        reservationId i \<noteq> None \<and> reservationId i = reservationId j \<longrightarrow> i = j)"

text \<open>The condition under which the loop of \<^verbatim>\<open>refreshReservations\<close> releases a line.\<close>

definition isExpired :: "int \<Rightarrow> CartItem \<Rightarrow> bool" where
  "isExpired now item = (truthy (reservationId item) \<and> now - addedAt item > RESERVATION_TIMEOUT)"

text \<open>The write that \<^verbatim>\<open>releaseReservation\<close> makes for a line of product \<open>productId\<close> and quantity \<open>qty\<close>.\<close>

definition releaseRow :: "string \<Rightarrow> int \<Rightarrow> InventoryItem list \<Rightarrow> InventoryItem list" where
  "releaseRow productId qty tbl =
     (case getInventory tbl productId of
        None \<Rightarrow> tbl
      | Some row \<Rightarrow>
          updateItem tbl (inv_uid row) (inv_id row)
            (\<lambda>r. r\<lparr>reserved_stock := max 0 (reserved_stock row - qty)\<rparr>))"

text \<open>
  Sequences of calls of the cart store that reserve and release: \<^verbatim>\<open>addItem\<close>, which
  reserves and puts the token on a line of the cart, and \<^verbatim>\<open>reserveInventory\<close> and
  \<^verbatim>\<open>releaseReservation\<close> themselves.
\<close>

datatype cartOp =
    Add ProductWithInventory int string string int
  | Reserve string int string string
  | Release string

fun runOp :: "cartOp \<Rightarrow> state \<Rightarrow> state" where
  "runOp (Add pwi qty stamp rnd now) s = snd (addItem pwi qty stamp rnd now s)"
| "runOp (Reserve productId qty stamp rnd) s = snd (reserveInventory productId qty stamp rnd s)"
| "runOp (Release t) s = releaseReservation t s"

fun runOps :: "cartOp list \<Rightarrow> state \<Rightarrow> state" where
  "runOps [] s = s"
| "runOps (c # cs) s = runOps cs (runOp c s)"

text \<open>
  The write that the commit loop of \<^verbatim>\<open>handleCheckout\<close> makes for a line of product
  \<open>productId\<close> and quantity \<open>qty\<close>, and what it makes of the row it read.
\<close>

definition commitRow :: "string \<Rightarrow> int \<Rightarrow> InventoryItem list \<Rightarrow> InventoryItem list" where
  "commitRow productId qty tbl =
     (case getInventory tbl productId of
        None \<Rightarrow> tbl
      | Some row \<Rightarrow>
          updateItem tbl (inv_uid row) (inv_id row)
            (\<lambda>r. r\<lparr>current_stock := current_stock row - qty,
                    reserved_stock := max 0 (reserved_stock row - qty),
                    total_sold := total_sold row + qty\<rparr>))"

definition soldRow :: "int \<Rightarrow> InventoryItem \<Rightarrow> InventoryItem" where
  "soldRow qty row = row\<lparr>current_stock := current_stock row - qty,
                      reserved_stock := max 0 (reserved_stock row - qty),
                      total_sold := total_sold row + qty\<rparr>"


text \<open>No row of the table has a negative \<open>reserved_stock\<close>.\<close>

definition reservedNonneg :: "InventoryItem list \<Rightarrow> bool" where
  "reservedNonneg tbl = (\<forall>row \<in> set tbl. 0 \<le> reserved_stock row)"

section \<open>Sample data\<close>

text \<open>
  Two products with one inventory row each, a cart line for each, and a state built from a
  cart and an inventory table; the timers are those of the tokens in the cart. The snapshot
  in a cart line is what \<^verbatim>\<open>getProductsWithInventory\<close> returned for a row with stock \<open>c\<close>
  and reserved stock \<open>r\<close>.
\<close>

definition rowA :: "int \<Rightarrow> int \<Rightarrow> int \<Rightarrow> InventoryItem" where
  "rowA c r sold = \<lparr>inv_id = ''inv-a'', inv_uid = ''u1'', product_id = ''A'',
                    current_stock = c, reserved_stock = r, total_sold = sold\<rparr>"

definition rowB :: "int \<Rightarrow> int \<Rightarrow> int \<Rightarrow> InventoryItem" where
  "rowB c r sold = \<lparr>inv_id = ''inv-b'', inv_uid = ''u1'', product_id = ''B'',
                    current_stock = c, reserved_stock = r, total_sold = sold\<rparr>"

definition productA :: CoffeeProduct where
  "productA = \<lparr>p_id = ''A'', name = ''Yirgacheffe'', price = 1000\<rparr>"

definition productB :: CoffeeProduct where
  "productB = \<lparr>p_id = ''B'', name = ''Huila'', price = 1500\<rparr>"

definition snapA :: "int \<Rightarrow> int \<Rightarrow> ProductWithInventory" where
  "snapA c r = \<lparr>product = productA, inventory = rowA c r 0, available_stock = max 0 (c - r)\<rparr>"

definition snapB :: "int \<Rightarrow> int \<Rightarrow> ProductWithInventory" where
  "snapB c r = \<lparr>product = productB, inventory = rowB c r 0, available_stock = max 0 (c - r)\<rparr>"

definition lineA :: "int \<Rightarrow> int \<Rightarrow> int \<Rightarrow> string option \<Rightarrow> int \<Rightarrow> CartItem" where
  "lineA c r q tok t = \<lparr>cproduct = snapA c r, quantity = q, reservationId = tok, addedAt = t\<rparr>"

definition lineB :: "int \<Rightarrow> int \<Rightarrow> int \<Rightarrow> string option \<Rightarrow> int \<Rightarrow> CartItem" where
  "lineB c r q tok t = \<lparr>cproduct = snapB c r, quantity = q, reservationId = tok, addedAt = t\<rparr>"

definition shop :: "CartItem list \<Rightarrow> InventoryItem list \<Rightarrow> state" where
  "shop its tbl =
     \<lparr>items = its, isOpen = True,
      reservationTimeouts = set (concat (map (\<lambda>i. case reservationId i of None \<Rightarrow> [] | Some t \<Rightarrow> [t]) its)),
      inventory_table = tbl, orders_table = []\<rparr>"

section \<open>Lemmas on lists, the table service and release\<close>

lemma find_map_preserved:
  "(\<And>x. P (g x) = P x) \<Longrightarrow> find P (map g xs) = map_option g (find P xs)"
  by (induction xs) auto

lemma find_unique:
  assumes "x \<in> set xs" "P x" "\<And>y. y \<in> set xs \<Longrightarrow> P y \<Longrightarrow> y = x"
  shows "find P xs = Some x"
proof -
  obtain y where y: "find P xs = Some y"
    using assms(1,2) by (cases "find P xs") (auto simp: find_None_iff)
  then have "y \<in> set xs \<and> P y"
    by (auto simp: find_Some_iff)
  then have "y = x" using assms(3) by blast
  then show ?thesis using y by blast
qed

lemma find_Some_mem: "find P xs = Some x \<Longrightarrow> x \<in> set xs \<and> P x"
  by (induction xs) (auto split: if_splits)

lemma find_filter_implied:
  "(\<And>x. P x \<Longrightarrow> Q x) \<Longrightarrow> find P (filter Q xs) = find P xs"
  by (induction xs) auto

lemma getInventory_updateItem:
  assumes "\<And>r. product_id (f r) = product_id r"
  shows "getInventory (updateItem tbl uid rid f) pid =
         map_option (\<lambda>r. if inv_uid r = uid \<and> inv_id r = rid then f r else r) (getInventory tbl pid)"
  unfolding getInventory_def updateItem_def
  by (rule find_map_preserved) (simp add: assms)

lemma updateItem_keys:
  assumes "\<And>r. rowKey (f r) = rowKey r"
  shows "map rowKey (updateItem tbl uid rid f) = map rowKey tbl"
  by (simp add: updateItem_def assms)

lemma getInventory_mem: "getInventory tbl pid = Some row \<Longrightarrow> row \<in> set tbl \<and> product_id row = pid"
  unfolding getInventory_def by (rule find_Some_mem)

lemma releaseRow_same:
  "getInventory (releaseRow pid q tbl) pid =
   map_option (\<lambda>row. row\<lparr>reserved_stock := max 0 (reserved_stock row - q)\<rparr>) (getInventory tbl pid)"
  by (cases "getInventory tbl pid") (simp_all add: releaseRow_def getInventory_updateItem)

lemma distinct_keys_eq:
  "distinct (map rowKey tbl) \<Longrightarrow> a \<in> set tbl \<Longrightarrow> b \<in> set tbl \<Longrightarrow> rowKey a = rowKey b \<Longrightarrow> a = b"
  by (simp add: distinct_map inj_on_def)

lemma update_other_key:
  assumes "distinct (map rowKey tbl)" "pid' \<noteq> pid" "getInventory tbl pid = Some row"
    and "\<And>r. product_id (f r) = product_id r"
  shows "getInventory (updateItem tbl (inv_uid row) (inv_id row) f) pid' = getInventory tbl pid'"
proof (cases "getInventory tbl pid'")
  case None
  then show ?thesis by (simp add: getInventory_updateItem assms(4))
next
  case (Some row')
  have a: "row \<in> set tbl" "product_id row = pid"
    using assms(3) getInventory_mem by blast+
  have b: "row' \<in> set tbl" "product_id row' = pid'"
    using Some getInventory_mem by blast+
  have "rowKey row' = rowKey row \<Longrightarrow> row' = row"
    using distinct_keys_eq[OF assms(1) b(1) a(1)] by simp
  then have "\<not> (inv_uid row' = inv_uid row \<and> inv_id row' = inv_id row)"
    using a(2) b(2) assms(2) by (auto simp: rowKey_def)
  then have "(if inv_uid row' = inv_uid row \<and> inv_id row' = inv_id row then f row' else row') = row'"
    by (rule if_not_P)
  then show ?thesis
    by (simp only: Some getInventory_updateItem[OF assms(4)] option.map)
qed

lemma releaseRow_other:
  assumes "distinct (map rowKey tbl)" "pid' \<noteq> pid"
  shows "getInventory (releaseRow pid q tbl) pid' = getInventory tbl pid'"
proof (cases "getInventory tbl pid")
  case None
  then show ?thesis by (simp add: releaseRow_def)
next
  case (Some row)
  then show ?thesis
    by (simp add: releaseRow_def update_other_key[OF assms Some])
qed

lemma releaseRow_keys: "map rowKey (releaseRow pid q tbl) = map rowKey tbl"
proof (cases "getInventory tbl pid")
  case None
  then show ?thesis by (simp add: releaseRow_def)
next
  case (Some row)
  have "map rowKey (updateItem tbl (inv_uid row) (inv_id row)
          (\<lambda>r. r\<lparr>reserved_stock := max 0 (reserved_stock row - q)\<rparr>)) = map rowKey tbl"
    by (rule updateItem_keys) (simp add: rowKey_def)
  then show ?thesis using Some by (simp add: releaseRow_def)
qed

lemma releaseRow_current:
  "map_option current_stock (getInventory (releaseRow pid q tbl) p) =
   map_option current_stock (getInventory tbl p)"
  by (cases "getInventory tbl pid"; cases "getInventory tbl p")
     (simp_all add: releaseRow_def getInventory_updateItem)

lemma releaseReservation_items:
  "items (releaseReservation t s) = filter (\<lambda>item. reservationId item \<noteq> Some t) (items s)"
proof (cases "find (\<lambda>item. reservationId item = Some t) (items s)")
  case None
  then have "\<forall>x \<in> set (items s). reservationId x \<noteq> Some t"
    by (simp add: find_None_iff)
  then have "filter (\<lambda>item. reservationId item \<noteq> Some t) (items s) = items s"
    by simp
  then show ?thesis using None by (simp add: releaseReservation_def)
next
  case (Some item)
  then show ?thesis by (simp add: releaseReservation_def Let_def)
qed

lemma releaseReservation_table:
  "find (\<lambda>item. reservationId item = Some t) (items s) = Some item \<Longrightarrow>
   inventory_table (releaseReservation t s) = releaseRow (itemProductId item) (quantity item) (inventory_table s)"
  by (simp add: releaseReservation_def releaseRow_def Let_def split: option.splits)

lemma releaseReservation_none:
  "find (\<lambda>item. reservationId item = Some t) (items s) = None \<Longrightarrow>
   releaseReservation t s = s"
  by (simp add: releaseReservation_def)

lemma releaseReservation_timeouts:
  "find (\<lambda>item. reservationId item = Some t) (items s) = Some item \<Longrightarrow>
   reservationTimeouts (releaseReservation t s) = reservationTimeouts s - {t}"
  by (simp add: releaseReservation_def Let_def)

lemma releaseReservation_orders: "orders_table (releaseReservation t s) = orders_table s"
  by (simp add: releaseReservation_def Let_def split: option.splits)

lemma releaseReservation_isOpen: "isOpen (releaseReservation t s) = isOpen s"
  by (simp add: releaseReservation_def Let_def split: option.splits)

lemma uniqueTokensD:
  assumes "uniqueTokens its" "i \<in> set its" "j \<in> set its"
    and "reservationId i = Some t" "reservationId j = Some t"
  shows "i = j"
proof -
  have "reservationId i \<noteq> None \<and> reservationId i = reservationId j \<longrightarrow> i = j"
    using assms(1,2,3) unfolding uniqueTokens_def by (elim ballE) blast+
  then show ?thesis using assms(4,5) by simp
qed

lemma uniqueTokens_find:
  assumes "uniqueTokens its" "x \<in> set its" "reservationId x = Some t"
  shows "find (\<lambda>item. reservationId item = Some t) its = Some x"
proof (rule find_unique)
  show "x \<in> set its" by (rule assms(2))
  show "reservationId x = Some t" by (rule assms(3))
  show "\<And>y. y \<in> set its \<Longrightarrow> reservationId y = Some t \<Longrightarrow> y = x"
    using uniqueTokensD[OF assms(1) _ assms(2) _ assms(3)] by blast
qed

lemma uniqueTokens_filter: "uniqueTokens its \<Longrightarrow> uniqueTokens (filter P its)"
  unfolding uniqueTokens_def by simp blast

text \<open>The definitions that the evaluation of a concrete run unfolds.\<close>

lemmas demo_defs =
  rowA_def rowB_def productA_def productB_def snapA_def snapB_def lineA_def lineB_def shop_def

lemmas uq_eval = updateQuantity_def removeItem_def releaseReservation_def reserveInventory_def truthy_def
        itemProductId_def getInventory_def updateItem_def demo_defs Let_def

lemmas cart_eval = addItem_def removeItem_def releaseReservation_def reserveInventory_def truthy_def
        itemProductId_def getInventory_def updateItem_def demo_defs Let_def

lemmas checkout_eval = handleCheckout_def makeOrder_def getTotalPrice_def orderLine_def clearCart_def
  closeCart_def releaseReservation_def itemProductId_def getInventory_def updateItem_def demo_defs Let_def

lemmas service_eval = getProductsWithInventory_def checkProductAvailability_def reserveStock_def
  statsAvailable_def reserveInventory_def releaseReservation_def itemProductId_def
  getInventory_def updateItem_def demo_defs Let_def

section \<open>Reserving\<close>

text \<open>
  Claim C1: a reserve request for more than the available stock, read from the store at the
  time of the request, fails with InsufficientStock and leaves \<open>reserved_stock\<close> unchanged.

  The cart's \<^verbatim>\<open>reserveInventory\<close> does not do that. Evaluated on a store holding one row for
  product A with \<open>current_stock = 1\<close> and \<open>reserved_stock = 0\<close>, a request for 5 units
  returns a token and writes \<open>reserved_stock = 5\<close>. \<^verbatim>\<open>addItem\<close> reaches it with a product
  snapshot taken when 10 units were in stock: its own check is against the snapshot.
\<close>

theorem reserveInventory_beyond_available:
  "reserveInventory ''A'' 5 ''1700000000000'' ''k3j9x2m1q'' (shop [] [rowA 1 0 0])
     = (Some ''res_1700000000000_k3j9x2m1q'', shop [] [rowA 1 5 0])
   \<and> addItem (snapA 10 0) 5 ''1700000000000'' ''k3j9x2m1q'' 0 (shop [] [rowA 1 0 0])
     = (True, shop [lineA 10 0 5 (Some ''res_1700000000000_k3j9x2m1q'') 0] [rowA 1 5 0])"
  by (simp add: addItem_def reserveInventory_def truthy_def itemProductId_def getInventory_def
      updateItem_def demo_defs Let_def)

section \<open>Releasing\<close>

text \<open>
  Claim C10: releasing a token that no cart line holds (also a token released before) is a
  no-op. The whole state, cart and inventory table alike, is returned as it was, so a second
  release of the same token changes nothing.
\<close>

theorem release_without_line_is_noop:
  "((\<forall>item \<in> set (items s). reservationId item \<noteq> Some t) \<longrightarrow> releaseReservation t s = s)
   \<and> releaseReservation t (releaseReservation t s) = releaseReservation t s"
proof -
  have a: "releaseReservation t s' = s'"
    if "\<forall>item \<in> set (items s'). reservationId item \<noteq> Some t" for s'
  proof -
    have "find (\<lambda>item. reservationId item = Some t) (items s') = None"
      using that by (simp add: find_None_iff)
    then show ?thesis by (rule releaseReservation_none)
  qed
  have "\<forall>item \<in> set (items (releaseReservation t s)). reservationId item \<noteq> Some t"
    by (simp add: releaseReservation_items)
  then have "releaseReservation t (releaseReservation t s) = releaseReservation t s"
    by (rule a)
  then show ?thesis using a by blast
qed

text \<open>
  An instance: a cart with one line of 2 units of A holding \<open>res_1_a\<close>. Releasing the unknown
  token \<open>res_9_z\<close> changes nothing; releasing \<open>res_1_a\<close> gives the units back and removes
  the line, and releasing it once more changes nothing.
\<close>

theorem release_without_line_is_noop_witness:
  "map reservationId (items (shop [lineA 10 0 2 (Some ''res_1_a'') 0] [rowA 10 2 0])) = [Some ''res_1_a'']
   \<and> releaseReservation ''res_9_z'' (shop [lineA 10 0 2 (Some ''res_1_a'') 0] [rowA 10 2 0])
       = shop [lineA 10 0 2 (Some ''res_1_a'') 0] [rowA 10 2 0]
   \<and> releaseReservation ''res_1_a'' (shop [lineA 10 0 2 (Some ''res_1_a'') 0] [rowA 10 2 0])
       = shop [] [rowA 10 0 0]
   \<and> releaseReservation ''res_1_a'' (shop [] [rowA 10 0 0]) = shop [] [rowA 10 0 0]"
proof -
  let ?s = "shop [lineA 10 0 2 (Some ''res_1_a'') 0] [rowA 10 2 0]"
  have h: "\<forall>item \<in> set (items ?s). reservationId item \<noteq> Some ''res_9_z''"
    by (simp add: demo_defs)
  have r: "releaseReservation ''res_1_a'' ?s = shop [] [rowA 10 0 0]"
    by (simp add: releaseReservation_def itemProductId_def getInventory_def updateItem_def
        demo_defs Let_def)
  have "releaseReservation ''res_9_z'' ?s = ?s"
    using release_without_line_is_noop[of ?s "''res_9_z''"] h by blast
  moreover have "releaseReservation ''res_1_a'' (shop [] [rowA 10 0 0]) = shop [] [rowA 10 0 0]"
    using release_without_line_is_noop[of ?s "''res_1_a''"] r by simp
  moreover have "map reservationId (items ?s) = [Some ''res_1_a'']"
    by (simp add: demo_defs)
  ultimately show ?thesis using r by simp
qed

section \<open>The release at the end of the checkout\<close>

text \<open>
  Claim C3: a successful checkout clears the cart without calling release, so that each
  line's \<open>reserved_stock\<close> is decremented once, by the commit step.

  \<^verbatim>\<open>handleCheckout\<close> ends with \<^verbatim>\<open>clearCart()\<close>, which releases every line that holds a
  token. Bob adds 2 units of A to his cart and Ann 3 to hers, so that the row of A has 5 units
  reserved. In Ann's checkout the commit step writes \<open>reserved_stock = 2\<close>, and the release
  that follows takes her 3 units off again: the checkout leaves \<open>reserved_stock = 0\<close>, and
  the 2 units in Bob's cart are no longer reserved.
\<close>

theorem checkout_releases_after_commit:
  "addItem (snapA 10 0) 2 ''1700000000000'' ''bbb'' 0 (shop [] [rowA 10 0 0])
     = (True, shop [lineA 10 0 2 (Some ''res_1700000000000_bbb'') 0] [rowA 10 2 0])
   \<and> addItem (snapA 10 2) 3 ''1700000000100'' ''aaa'' 100 (shop [] [rowA 10 2 0])
     = (True, shop [lineA 10 2 3 (Some ''res_1700000000100_aaa'') 100] [rowA 10 5 0])
   \<and> commitInventory [lineA 10 2 3 (Some ''res_1700000000100_aaa'') 100] [rowA 10 5 0]
     = [rowA 7 2 3]
   \<and> inventory_table (handleCheckout True ''ann@example.org'' ''1700000000200''
        (shop [lineA 10 2 3 (Some ''res_1700000000100_aaa'') 100] [rowA 10 5 0])) = [rowA 7 0 3]"
  by (simp add: addItem_def reserveInventory_def truthy_def handleCheckout_def clearCart_def
      closeCart_def releaseReservation_def itemProductId_def getInventory_def updateItem_def
      demo_defs Let_def)

section \<open>Changing the quantity of a line\<close>

lemma getInventory_update_found:
  assumes "getInventory tbl pid = Some row" "\<And>r. product_id (f r) = product_id r"
  shows "getInventory (updateItem tbl (inv_uid row) (inv_id row) f) pid = Some (f row)"
  by (simp add: getInventory_updateItem[OF assms(2)] assms(1))

lemma reserveInventory_row:
  assumes "getInventory (inventory_table s) pid = Some row"
  shows "reserveInventory pid q stamp rnd s =
           (Some (''res_'' @ stamp @ ''_'' @ rnd),
            s\<lparr>inventory_table :=
                 updateItem (inventory_table s) (inv_uid row) (inv_id row)
                   (\<lambda>r. r\<lparr>reserved_stock := reserved_stock row + q\<rparr>)\<rparr>)"
  by (simp add: reserveInventory_def assms)

lemma reserveInventory_no_row:
  assumes "getInventory (inventory_table s) pid = None"
  shows "reserveInventory pid q stamp rnd s = (None, s)"
  by (simp add: reserveInventory_def assms)

lemma reserveInventory_lookup:
  assumes "getInventory (inventory_table s) pid = Some row"
  shows "getInventory (inventory_table (snd (reserveInventory pid q stamp rnd s))) pid
           = Some (row\<lparr>reserved_stock := reserved_stock row + q\<rparr>)"
  by (simp add: reserveInventory_row[OF assms] getInventory_update_found[OF assms])

lemma reserveInventory_items: "items (snd (reserveInventory pid q stamp rnd s)) = items s"
  by (cases "getInventory (inventory_table s) pid") (simp_all add: reserveInventory_def)

lemma find_product_filter_token:
  assumes "distinctProducts its" "find (\<lambda>i. itemProductId i = pid) its = Some item"
    "reservationId item = Some t"
  shows "\<forall>i \<in> set (filter (\<lambda>i. reservationId i \<noteq> Some t) its). itemProductId i \<noteq> pid"
proof
  fix i assume i: "i \<in> set (filter (\<lambda>i. reservationId i \<noteq> Some t) its)"
  have m: "item \<in> set its" "itemProductId item = pid"
    using find_Some_mem[OF assms(2)] by blast+
  show "itemProductId i \<noteq> pid"
  proof
    assume "itemProductId i = pid"
    moreover have "i \<in> set its" using i by simp
    moreover have "inj_on itemProductId (set its)"
      using assms(1) by (simp add: distinctProducts_def distinct_map)
    ultimately have "i = item" using m by (simp add: inj_on_def)
    then show False using i assms(3) by simp
  qed
qed

lemma updateQuantity_held:
  assumes f: "find (\<lambda>i. itemProductId i = pid) (items s) = Some item"
    and tok: "reservationId item = Some t" "t \<noteq> []"
    and q: "0 < q" "q \<le> available_stock (cproduct item) + quantity item"
    and u: "uniqueTokens (items s)"
    and row: "getInventory (inventory_table s) pid = Some row"
  shows "fst (updateQuantity pid q stamp rnd s) = True"
    and "items (snd (updateQuantity pid q stamp rnd s)) =
           map (\<lambda>i. if itemProductId i = pid
                     then i\<lparr>quantity := q, reservationId := Some (''res_'' @ stamp @ ''_'' @ rnd)\<rparr>
                     else i)
             (filter (\<lambda>i. reservationId i \<noteq> Some t) (items s))"
    and "getInventory (inventory_table (snd (updateQuantity pid q stamp rnd s))) pid =
           Some (row\<lparr>reserved_stock := max 0 (reserved_stock row - quantity item) + q\<rparr>)"
proof -
  define s1 where "s1 = releaseReservation t s"
  have m: "item \<in> set (items s)" "itemProductId item = pid"
    using find_Some_mem[OF f] by blast+
  have ft: "find (\<lambda>i. reservationId i = Some t) (items s) = Some item"
    using uniqueTokens_find[OF u m(1) tok(1)] .
  have g1: "getInventory (inventory_table s1) pid =
              Some (row\<lparr>reserved_stock := max 0 (reserved_stock row - quantity item)\<rparr>)"
    by (simp add: s1_def releaseReservation_table[OF ft] m(2) releaseRow_same row)
  note r = reserveInventory_row[OF g1, of q stamp rnd]
  have i1: "items s1 = filter (\<lambda>i. reservationId i \<noteq> Some t) (items s)"
    by (simp add: s1_def releaseReservation_items)
  have uq: "updateQuantity pid q stamp rnd s =
      (True, (snd (reserveInventory pid q stamp rnd s1))
         \<lparr>items := map (\<lambda>i. if itemProductId i = pid
                     then i\<lparr>quantity := q, reservationId := Some (''res_'' @ stamp @ ''_'' @ rnd)\<rparr>
                     else i) (items (snd (reserveInventory pid q stamp rnd s1)))\<rparr>)"
    using q by (simp add: updateQuantity_def f tok s1_def[symmetric] r truthy_def Let_def)
  show "fst (updateQuantity pid q stamp rnd s) = True" by (simp add: uq)
  show "items (snd (updateQuantity pid q stamp rnd s)) =
           map (\<lambda>i. if itemProductId i = pid
                     then i\<lparr>quantity := q, reservationId := Some (''res_'' @ stamp @ ''_'' @ rnd)\<rparr>
                     else i)
             (filter (\<lambda>i. reservationId i \<noteq> Some t) (items s))"
    by (simp add: uq reserveInventory_items i1)
  have "getInventory (inventory_table (snd (reserveInventory pid q stamp rnd s1))) pid =
          Some (row\<lparr>reserved_stock := max 0 (reserved_stock row - quantity item) + q\<rparr>)"
    by (simp add: reserveInventory_lookup[OF g1])
  then show "getInventory (inventory_table (snd (updateQuantity pid q stamp rnd s))) pid =
           Some (row\<lparr>reserved_stock := max 0 (reserved_stock row - quantity item) + q\<rparr>)"
    by (simp add: uq)
qed


lemma updateQuantity_too_many:
  assumes "find (\<lambda>i. itemProductId i = pid) (items s) = Some item"
    "0 < q" "q > available_stock (cproduct item) + quantity item"
  shows "updateQuantity pid q stamp rnd s = (False, s)"
  using assms by (simp add: updateQuantity_def Let_def)

lemma updateQuantity_held_no_row:
  assumes f: "find (\<lambda>i. itemProductId i = pid) (items s) = Some item"
    and tok: "reservationId item = Some t" "t \<noteq> []"
    and q: "0 < q"
    and u: "uniqueTokens (items s)"
    and row: "getInventory (inventory_table s) pid = None"
  shows "fst (updateQuantity pid q stamp rnd s) = False"
proof (cases "q > available_stock (cproduct item) + quantity item")
  case True
  then show ?thesis using updateQuantity_too_many[OF f q True] by simp
next
  case False
  have m: "item \<in> set (items s)" "itemProductId item = pid"
    using find_Some_mem[OF f] by blast+
  have ft: "find (\<lambda>i. reservationId i = Some t) (items s) = Some item"
    using uniqueTokens_find[OF u m(1) tok(1)] .
  have "getInventory (inventory_table (releaseReservation t s)) pid = None"
    by (simp add: releaseReservation_table[OF ft] m(2) releaseRow_same row)
  then have "reserveInventory pid q stamp rnd (releaseReservation t s) = (None, releaseReservation t s)"
    by (rule reserveInventory_no_row)
  then show ?thesis using q False
    by (simp add: updateQuantity_def f tok truthy_def Let_def)
qed


text \<open>
  Claim C9: when the line of a product holds a reservation token, a successful
  \<^verbatim>\<open>updateQuantity(productId, q)\<close> with \<open>q > 0\<close> leaves the cart with no line for the
  product at all. The release of the old reservation filters the line out of the cart, so
  the final \<^verbatim>\<open>map\<close> finds no line to write the new quantity and token to; the call
  returns \<^verbatim>\<open>true\<close>, and the row of the product has the new quantity added to what the
  release left of \<open>reserved_stock\<close>.
\<close>

theorem updateQuantity_loses_line:
  assumes f: "find (\<lambda>i. itemProductId i = pid) (items s) = Some item"
    and tok: "reservationId item = Some t" "t \<noteq> []"
    and q: "0 < q"
    and d: "distinctProducts (items s)"
    and u: "uniqueTokens (items s)"
    and ok: "fst (updateQuantity pid q stamp rnd s) = True"
  shows "find (\<lambda>i. itemProductId i = pid) (items (snd (updateQuantity pid q stamp rnd s))) = None
       \<and> (\<exists>row. getInventory (inventory_table s) pid = Some row
            \<and> getInventory (inventory_table (snd (updateQuantity pid q stamp rnd s))) pid
                = Some (row\<lparr>reserved_stock := max 0 (reserved_stock row - quantity item) + q\<rparr>))"
proof -
  have le: "q \<le> available_stock (cproduct item) + quantity item"
  proof (rule ccontr)
    assume "\<not> q \<le> available_stock (cproduct item) + quantity item"
    then have "updateQuantity pid q stamp rnd s = (False, s)"
      using updateQuantity_too_many[OF f q] by simp
    then show False using ok by simp
  qed
  obtain row where row: "getInventory (inventory_table s) pid = Some row"
  proof (cases "getInventory (inventory_table s) pid")
    case None
    then show ?thesis using updateQuantity_held_no_row[OF f tok q u None, of stamp rnd] ok by simp
  next
    case (Some r)
    then show ?thesis using that by blast
  qed
  note h = updateQuantity_held[OF f tok q le u row, of stamp rnd]
  have "\<forall>i \<in> set (filter (\<lambda>i. reservationId i \<noteq> Some t) (items s)). itemProductId i \<noteq> pid"
    by (rule find_product_filter_token[OF d f tok(1)])
  then have "find (\<lambda>i. itemProductId i = pid) (items (snd (updateQuantity pid q stamp rnd s))) = None"
    by (simp add: h(2) find_None_iff) blast
  then show ?thesis using row h(3) by simp
qed

text \<open>
  An instance: a cart with 2 units of A and 1 unit of B, both held. Raising A to 5 returns
  \<^verbatim>\<open>true\<close>, the cart has no line for A any more, and the row of A has 5 units reserved.
\<close>

theorem updateQuantity_loses_line_witness:
  "fst (updateQuantity ''A'' 5 ''1700000000000'' ''zz''
          (shop [lineA 10 0 2 (Some ''res_1_a'') 0, lineB 4 0 1 (Some ''res_1_b'') 0]
                [rowA 10 2 0, rowB 4 1 0])) = True
   \<and> find (\<lambda>i. itemProductId i = ''A'')
        (items (snd (updateQuantity ''A'' 5 ''1700000000000'' ''zz''
          (shop [lineA 10 0 2 (Some ''res_1_a'') 0, lineB 4 0 1 (Some ''res_1_b'') 0]
                [rowA 10 2 0, rowB 4 1 0])))) = None
   \<and> getInventory (inventory_table (snd (updateQuantity ''A'' 5 ''1700000000000'' ''zz''
          (shop [lineA 10 0 2 (Some ''res_1_a'') 0, lineB 4 0 1 (Some ''res_1_b'') 0]
                [rowA 10 2 0, rowB 4 1 0])))) ''A'' = Some (rowA 10 5 0)"
proof -
  let ?s = "shop [lineA 10 0 2 (Some ''res_1_a'') 0, lineB 4 0 1 (Some ''res_1_b'') 0]
                 [rowA 10 2 0, rowB 4 1 0]"
  let ?u = "updateQuantity ''A'' 5 ''1700000000000'' ''zz'' ?s"
  have f: "find (\<lambda>i. itemProductId i = ''A'') (items ?s) = Some (lineA 10 0 2 (Some ''res_1_a'') 0)"
    by (simp add: demo_defs itemProductId_def)
  have tok: "reservationId (lineA 10 0 2 (Some ''res_1_a'') 0) = Some ''res_1_a''" "''res_1_a'' \<noteq> []"
    by (simp_all add: demo_defs)
  have d: "distinctProducts (items ?s)"
    by (simp add: distinctProducts_def demo_defs itemProductId_def)
  have u: "uniqueTokens (items ?s)"
    by (simp add: uniqueTokens_def demo_defs)
  have ok: "fst ?u = True"
    by (simp add: updateQuantity_def releaseReservation_def reserveInventory_def truthy_def
        itemProductId_def getInventory_def updateItem_def demo_defs Let_def)
  have g: "getInventory (inventory_table ?s) ''A'' = Some (rowA 10 2 0)"
    by (simp add: getInventory_def demo_defs)
  have q: "quantity (lineA 10 0 2 (Some ''res_1_a'') 0) = 2"
    by (simp add: demo_defs)
  have "find (\<lambda>i. itemProductId i = ''A'') (items (snd ?u)) = None
       \<and> (\<exists>row. getInventory (inventory_table ?s) ''A'' = Some row
            \<and> getInventory (inventory_table (snd ?u)) ''A''
                = Some (row\<lparr>reserved_stock :=
                     max 0 (reserved_stock row - quantity (lineA 10 0 2 (Some ''res_1_a'') 0)) + 5\<rparr>))"
    by (rule updateQuantity_loses_line[OF f tok _ d u ok]) simp
  then have "find (\<lambda>i. itemProductId i = ''A'') (items (snd ?u)) = None
       \<and> getInventory (inventory_table (snd ?u)) ''A'' = Some (rowA 10 5 0)"
    by (simp add: g q) (simp add: rowA_def)
  then show ?thesis using ok by simp
qed





text \<open>
  Which targets are accepted: the test that \<^verbatim>\<open>updateQuantity\<close> makes before it releases and
  reserves reads the \<open>available_stock\<close> of the snapshot in the line, and
  \<^verbatim>\<open>reserveInventory\<close> makes no test. Two units of A are added from a list loaded when 10
  were available, so that the row has 8 available and the line holds 2; a target of 12 is
  accepted, and leaves 12 units reserved of the 10 in stock.
\<close>

lemma updateQuantity_accepts_beyond_stock:
  "addItem (snapA 10 0) 2 ''1700000000000'' ''aaa'' 0 (shop [] [rowA 10 0 0])
     = (True, shop [lineA 10 0 2 (Some ''res_1700000000000_aaa'') 0] [rowA 10 2 0])
   \<and> max 0 (current_stock (rowA 10 2 0) - reserved_stock (rowA 10 2 0)) = 8
   \<and> fst (updateQuantity ''A'' 12 ''1700000000500'' ''zz''
            (shop [lineA 10 0 2 (Some ''res_1700000000000_aaa'') 0] [rowA 10 2 0])) = True
   \<and> inventory_table (snd (updateQuantity ''A'' 12 ''1700000000500'' ''zz''
            (shop [lineA 10 0 2 (Some ''res_1700000000000_aaa'') 0] [rowA 10 2 0]))) = [rowA 10 12 0]"
  by (simp add: uq_eval addItem_def)

section \<open>Reserve, then release\<close>

lemma find_append_None: "find P xs = None \<Longrightarrow> find P (xs @ ys) = find P ys"
  by (induction xs) (simp_all split: if_splits)

lemma addItem_new_line:
  assumes n: "find (\<lambda>i. itemProductId i = p_id (product pwi)) (items s) = None"
    and q: "qty \<le> available_stock pwi"
    and row: "getInventory (inventory_table s) (p_id (product pwi)) = Some row"
  shows "addItem pwi qty stamp rnd now s =
     (True,
      s\<lparr>inventory_table :=
           updateItem (inventory_table s) (inv_uid row) (inv_id row)
             (\<lambda>r. r\<lparr>reserved_stock := reserved_stock row + qty\<rparr>),
        items := items s @ [\<lparr>cproduct = pwi, quantity = qty,
                              reservationId = Some (''res_'' @ stamp @ ''_'' @ rnd), addedAt = now\<rparr>],
        reservationTimeouts := insert (''res_'' @ stamp @ ''_'' @ rnd) (reservationTimeouts s)\<rparr>)"
  using q by (simp add: addItem_def n reserveInventory_row[OF row] truthy_def Let_def)

text \<open>
  Claim C4, as the code has it. When \<^verbatim>\<open>addItem\<close> reserves \<open>qty\<close> units for a product that
  has no line in the cart yet (the token goes to a new line of quantity \<open>qty\<close>), the product
  has an inventory row whose \<open>reserved_stock\<close> is not negative, and no other line holds the
  token, then the reservation adds \<open>qty\<close> to \<open>reserved_stock\<close>, and releasing the token
  puts the row back as it was before the reservation, removes the line again and clears the
  timer of the token. The release subtracts the quantity of the line, floored at 0.
\<close>

theorem release_undoes_reservation_of_new_line:
  assumes n: "find (\<lambda>i. itemProductId i = p_id (product pwi)) (items s) = None"
    and q: "qty \<le> available_stock pwi"
    and row: "getInventory (inventory_table s) (p_id (product pwi)) = Some row"
    and nonneg: "0 \<le> reserved_stock row"
    and fresh: "\<forall>i \<in> set (items s). reservationId i \<noteq> Some (''res_'' @ stamp @ ''_'' @ rnd)"
  shows "fst (addItem pwi qty stamp rnd now s) = True
       \<and> getInventory (inventory_table (snd (addItem pwi qty stamp rnd now s))) (p_id (product pwi))
           = Some (row\<lparr>reserved_stock := reserved_stock row + qty\<rparr>)
       \<and> getInventory (inventory_table
             (releaseReservation (''res_'' @ stamp @ ''_'' @ rnd) (snd (addItem pwi qty stamp rnd now s))))
             (p_id (product pwi)) = Some row
       \<and> items (releaseReservation (''res_'' @ stamp @ ''_'' @ rnd) (snd (addItem pwi qty stamp rnd now s)))
           = items s
       \<and> reservationTimeouts
             (releaseReservation (''res_'' @ stamp @ ''_'' @ rnd) (snd (addItem pwi qty stamp rnd now s)))
           = reservationTimeouts s - {''res_'' @ stamp @ ''_'' @ rnd}"
proof -
  define t where "t = ''res_'' @ stamp @ ''_'' @ rnd"
  define new where "new = \<lparr>cproduct = pwi, quantity = qty, reservationId = Some t, addedAt = now\<rparr>"
  define s1 where "s1 = snd (addItem pwi qty stamp rnd now s)"
  let ?pid = "p_id (product pwi)"
  have a: "addItem pwi qty stamp rnd now s =
     (True,
      s\<lparr>inventory_table :=
           updateItem (inventory_table s) (inv_uid row) (inv_id row)
             (\<lambda>r. r\<lparr>reserved_stock := reserved_stock row + qty\<rparr>),
        items := items s @ [new],
        reservationTimeouts := insert t (reservationTimeouts s)\<rparr>)"
    unfolding t_def new_def by (rule addItem_new_line[OF n q row])
  have ok: "fst (addItem pwi qty stamp rnd now s) = True" by (simp add: a)
  have i1: "items s1 = items s @ [new]" by (simp add: s1_def a)
  have t1: "inventory_table s1 = updateItem (inventory_table s) (inv_uid row) (inv_id row)
             (\<lambda>r. r\<lparr>reserved_stock := reserved_stock row + qty\<rparr>)"
    by (simp add: s1_def a)
  have g1: "getInventory (inventory_table s1) ?pid = Some (row\<lparr>reserved_stock := reserved_stock row + qty\<rparr>)"
    by (simp add: t1 getInventory_update_found[OF row])
  have fr: "\<forall>i \<in> set (items s). reservationId i \<noteq> Some t"
    using fresh unfolding t_def .
  then have "find (\<lambda>i. reservationId i = Some t) (items s) = None"
    by (simp add: find_None_iff)
  then have ft: "find (\<lambda>i. reservationId i = Some t) (items s1) = Some new"
    by (simp add: i1 find_append_None new_def)
  have np: "itemProductId new = ?pid" "quantity new = qty"
    by (simp_all add: new_def itemProductId_def)
  have "getInventory (inventory_table (releaseReservation t s1)) ?pid =
          Some (row\<lparr>reserved_stock := max 0 (reserved_stock row + qty - qty)\<rparr>)"
    by (simp add: releaseReservation_table[OF ft] np releaseRow_same g1)
  then have g2: "getInventory (inventory_table (releaseReservation t s1)) ?pid = Some row"
    using nonneg by simp
  have "filter (\<lambda>i. reservationId i \<noteq> Some t) (items s) = items s"
    using fr by simp
  then have i2: "items (releaseReservation t s1) = items s"
    by (simp add: releaseReservation_items i1 new_def)
  have "reservationTimeouts s1 = insert t (reservationTimeouts s)" by (simp add: s1_def a)
  then have r2: "reservationTimeouts (releaseReservation t s1) = reservationTimeouts s - {t}"
    by (simp add: releaseReservation_timeouts[OF ft])
  show ?thesis using ok g1 g2 i2 r2 unfolding s1_def t_def by blast
qed

text \<open>An instance: one unit of A reserved into an empty cart, and released.\<close>

theorem release_undoes_reservation_of_new_line_witness:
  "addItem (snapA 10 0) 1 ''1700000000000'' ''zz'' 900 (shop [] [rowA 10 0 0])
     = (True, shop [lineA 10 0 1 (Some ''res_1700000000000_zz'') 900] [rowA 10 1 0])
   \<and> getInventory (inventory_table (releaseReservation ''res_1700000000000_zz''
        (shop [lineA 10 0 1 (Some ''res_1700000000000_zz'') 900] [rowA 10 1 0]))) ''A'' = Some (rowA 10 0 0)
   \<and> items (releaseReservation ''res_1700000000000_zz''
        (shop [lineA 10 0 1 (Some ''res_1700000000000_zz'') 900] [rowA 10 1 0])) = []"
proof -
  let ?s = "shop [] [rowA 10 0 0]"
  have n: "find (\<lambda>i. itemProductId i = p_id (product (snapA 10 0))) (items ?s) = None"
    by (simp add: demo_defs)
  have q: "1 \<le> available_stock (snapA 10 0)" by (simp add: demo_defs)
  have row: "getInventory (inventory_table ?s) (p_id (product (snapA 10 0))) = Some (rowA 10 0 0)"
    by (simp add: getInventory_def demo_defs)
  have nonneg: "0 \<le> reserved_stock (rowA 10 0 0)" by (simp add: demo_defs)
  have fresh: "\<forall>i \<in> set (items ?s). reservationId i \<noteq> Some (''res_'' @ ''1700000000000'' @ ''_'' @ ''zz'')"
    by (simp add: demo_defs)
  have a: "addItem (snapA 10 0) 1 ''1700000000000'' ''zz'' 900 ?s
            = (True, shop [lineA 10 0 1 (Some ''res_1700000000000_zz'') 900] [rowA 10 1 0])"
    by (simp add: cart_eval)
  have p: "p_id (product (snapA 10 0)) = ''A''" by (simp add: demo_defs)
  have e: "items ?s = []" by (simp add: shop_def)
  show ?thesis
    using release_undoes_reservation_of_new_line[OF n q row nonneg fresh, of 900]
    by (simp add: a p e)
qed

text \<open>
  Claim C4 as stated, for every reservation, fails when \<^verbatim>\<open>addItem\<close> merges into an existing
  line: the new token takes over the line, whose quantity is the sum. With 1 unit of A in the
  cart and 1 unit reserved in the row, reserving 1 more gives \<open>reserved_stock = 2\<close>, and
  releasing the token just returned gives \<open>reserved_stock = 0\<close>, not the 1 from before that
  reservation.
\<close>

theorem release_after_merge_counterexample:
  "addItem (snapA 10 0) 1 ''1700000000500'' ''yy'' 950
       (shop [lineA 10 0 1 (Some ''res_1700000000000_zz'') 900] [rowA 10 1 0])
     = (True, shop [lineA 10 0 2 (Some ''res_1700000000500_yy'') 900] [rowA 10 2 0]
               \<lparr>reservationTimeouts := {''res_1700000000500_yy'', ''res_1700000000000_zz''}\<rparr>)
   \<and> inventory_table (releaseReservation ''res_1700000000500_yy''
        (shop [lineA 10 0 2 (Some ''res_1700000000500_yy'') 900] [rowA 10 2 0]
               \<lparr>reservationTimeouts := {''res_1700000000500_yy'', ''res_1700000000000_zz''}\<rparr>))
     = [rowA 10 0 0]"
  by (simp add: cart_eval)

section \<open>Expiry of reservations\<close>

lemma refreshLoop_step:
  "refreshLoop now (x # xs) s =
     refreshLoop now xs
       (if isExpired now x then releaseReservation (the (reservationId x)) s else s)"
  by (simp add: isExpired_def truthy_def Let_def split: option.splits)

lemma isExpired_token: "isExpired now x \<Longrightarrow> \<exists>t. reservationId x = Some t"
  by (cases "reservationId x") (simp_all add: isExpired_def truthy_def)

lemma refreshLoop_items:
  "items (refreshLoop now xs s) =
     filter (\<lambda>i. \<forall>x \<in> set xs. isExpired now x \<longrightarrow> reservationId i \<noteq> reservationId x) (items s)"
proof (induction xs arbitrary: s)
  case Nil
  then show ?case by simp
next
  case (Cons x xs)
  show ?case
  proof (cases "isExpired now x")
    case False
    then show ?thesis by (simp add: refreshLoop_step Cons.IH del: refreshLoop.simps)
  next
    case True
    then obtain t where t: "reservationId x = Some t" using isExpired_token by blast
    have "items (refreshLoop now (x # xs) s) =
            filter (\<lambda>i. \<forall>y \<in> set xs. isExpired now y \<longrightarrow> reservationId i \<noteq> reservationId y)
              (filter (\<lambda>i. reservationId i \<noteq> Some t) (items s))"
      by (simp add: refreshLoop_step True t Cons.IH releaseReservation_items del: refreshLoop.simps)
    also have "\<dots> = filter (\<lambda>i. \<forall>y \<in> set (x # xs). isExpired now y \<longrightarrow> reservationId i \<noteq> reservationId y) (items s)"
      using True t by (auto intro: filter_cong)
    finally show ?thesis .
  qed
qed

lemma refreshLoop_lookup:
  assumes "distinct (map rowKey (inventory_table s))"
    and "distinct (map itemProductId xs)"
    and "set xs \<subseteq> set (items s)"
    and "uniqueTokens (items s)"
  shows "getInventory (inventory_table (refreshLoop now xs s)) p =
     (case find (\<lambda>x. itemProductId x = p \<and> isExpired now x) xs of
        None \<Rightarrow> getInventory (inventory_table s) p
      | Some x \<Rightarrow> map_option (\<lambda>row. row\<lparr>reserved_stock := max 0 (reserved_stock row - quantity x)\<rparr>)
                   (getInventory (inventory_table s) p))"
  using assms
proof (induction xs arbitrary: s)
  case Nil
  then show ?case by simp
next
  case (Cons x xs)
  have dxs: "distinct (map itemProductId xs)" using Cons.prems(2) by simp
  have xin: "x \<in> set (items s)" and sub: "set xs \<subseteq> set (items s)"
    using Cons.prems(3) by simp_all
  have nox: "\<forall>y \<in> set xs. itemProductId y \<noteq> itemProductId x"
  proof
    fix y assume "y \<in> set xs"
    then have "itemProductId y \<in> set (map itemProductId xs)" by simp
    moreover have "itemProductId x \<notin> set (map itemProductId xs)" using Cons.prems(2) by simp
    ultimately show "itemProductId y \<noteq> itemProductId x" by metis
  qed
  show ?case
  proof (cases "isExpired now x")
    case False
    have "getInventory (inventory_table (refreshLoop now (x # xs) s)) p =
          getInventory (inventory_table (refreshLoop now xs s)) p"
      by (simp add: refreshLoop_step False del: refreshLoop.simps)
    also have "\<dots> = (case find (\<lambda>x. itemProductId x = p \<and> isExpired now x) xs of
        None \<Rightarrow> getInventory (inventory_table s) p
      | Some x \<Rightarrow> map_option (\<lambda>row. row\<lparr>reserved_stock := max 0 (reserved_stock row - quantity x)\<rparr>)
                   (getInventory (inventory_table s) p))"
      by (rule Cons.IH[OF Cons.prems(1) dxs sub Cons.prems(4)])
    finally have "getInventory (inventory_table (refreshLoop now (x # xs) s)) p =
      (case find (\<lambda>x. itemProductId x = p \<and> isExpired now x) xs of
        None \<Rightarrow> getInventory (inventory_table s) p
      | Some x \<Rightarrow> map_option (\<lambda>row. row\<lparr>reserved_stock := max 0 (reserved_stock row - quantity x)\<rparr>)
                   (getInventory (inventory_table s) p))" .
    moreover have "find (\<lambda>y. itemProductId y = p \<and> isExpired now y) (x # xs) =
            find (\<lambda>y. itemProductId y = p \<and> isExpired now y) xs"
      using False by simp
    ultimately show ?thesis by (simp only:)
  next
    case True
    then obtain t where t: "reservationId x = Some t" using isExpired_token by blast
    define s' where "s' = releaseReservation t s"
    have ft: "find (\<lambda>i. reservationId i = Some t) (items s) = Some x"
      by (rule uniqueTokens_find[OF Cons.prems(4) xin t])
    have tbl': "inventory_table s' = releaseRow (itemProductId x) (quantity x) (inventory_table s)"
      by (simp add: s'_def releaseReservation_table[OF ft])
    have keys': "distinct (map rowKey (inventory_table s'))"
      using Cons.prems(1) by (simp add: tbl' releaseRow_keys)
    have items': "items s' = filter (\<lambda>i. reservationId i \<noteq> Some t) (items s)"
      by (simp add: s'_def releaseReservation_items)
    have sub': "set xs \<subseteq> set (items s')"
    proof
      fix y assume y: "y \<in> set xs"
      then have yin: "y \<in> set (items s)" using sub by blast
      have "reservationId y \<noteq> Some t"
      proof
        assume "reservationId y = Some t"
        then have "y = x" using uniqueTokensD[OF Cons.prems(4) yin xin _ t] by simp
        then show False using nox y by blast
      qed
      then show "y \<in> set (items s')" using yin by (simp add: items')
    qed
    have u': "uniqueTokens (items s')"
      unfolding items' by (rule uniqueTokens_filter[OF Cons.prems(4)])
    have step: "getInventory (inventory_table (refreshLoop now (x # xs) s)) p =
          getInventory (inventory_table (refreshLoop now xs s')) p"
      by (simp add: refreshLoop_step True t s'_def del: refreshLoop.simps)
    note IH = Cons.IH[OF keys' dxs sub' u']
    show ?thesis
    proof (cases "itemProductId x = p")
      case same: True
      have "find (\<lambda>y. itemProductId y = p \<and> isExpired now y) xs = None"
        using nox same by (simp add: find_None_iff) blast
      then have "getInventory (inventory_table (refreshLoop now xs s')) p =
                   getInventory (inventory_table s') p"
        using IH by simp
      also have "\<dots> = map_option (\<lambda>row. row\<lparr>reserved_stock := max 0 (reserved_stock row - quantity x)\<rparr>)
                   (getInventory (inventory_table s) p)"
        using same by (simp add: tbl' releaseRow_same)
      finally have "getInventory (inventory_table (refreshLoop now xs s')) p =
          map_option (\<lambda>row. row\<lparr>reserved_stock := max 0 (reserved_stock row - quantity x)\<rparr>)
                   (getInventory (inventory_table s) p)" .
      moreover have "find (\<lambda>y. itemProductId y = p \<and> isExpired now y) (x # xs) = Some x"
        using same True by simp
      ultimately show ?thesis unfolding step by (simp only: option.case)
    next
      case other: False
      then have "p \<noteq> itemProductId x" by blast
      then have e: "getInventory (inventory_table s') p = getInventory (inventory_table s) p"
        by (simp add: tbl' releaseRow_other[OF Cons.prems(1)])
      have "find (\<lambda>y. itemProductId y = p \<and> isExpired now y) (x # xs) =
            find (\<lambda>y. itemProductId y = p \<and> isExpired now y) xs"
        using other by simp
      then show ?thesis unfolding step IH e by (simp only:)
    qed
  qed
qed


lemma find_by_product:
  assumes "distinct (map itemProductId xs)" "i \<in> set xs"
  shows "find (\<lambda>x. itemProductId x = itemProductId i \<and> Q x) xs = (if Q i then Some i else None)"
proof -
  have inj: "inj_on itemProductId (set xs)" using assms(1) by (simp add: distinct_map)
  have only: "\<And>y. y \<in> set xs \<Longrightarrow> itemProductId y = itemProductId i \<Longrightarrow> y = i"
    using inj assms(2) by (simp add: inj_on_def)
  show ?thesis
  proof (cases "Q i")
    case True
    have "find (\<lambda>x. itemProductId x = itemProductId i \<and> Q x) xs = Some i"
      by (rule find_unique) (use assms(2) True only in blast)+
    then show ?thesis using True by simp
  next
    case False
    have "\<not> (\<exists>x. x \<in> set xs \<and> itemProductId x = itemProductId i \<and> Q x)"
      using only False by blast
    then show ?thesis using False by (simp add: find_None_iff)
  qed
qed

lemma unexpired_filter:
  assumes "uniqueTokens its"
  shows "filter (\<lambda>i. \<forall>x \<in> set its. isExpired now x \<longrightarrow> reservationId i \<noteq> reservationId x) its
           = filter (\<lambda>i. \<not> isExpired now i) its"
proof (rule filter_cong[OF refl])
  fix i assume i: "i \<in> set its"
  show "(\<forall>x \<in> set its. isExpired now x \<longrightarrow> reservationId i \<noteq> reservationId x) = (\<not> isExpired now i)"
  proof
    assume "\<forall>x \<in> set its. isExpired now x \<longrightarrow> reservationId i \<noteq> reservationId x"
    then show "\<not> isExpired now i" using i by blast
  next
    assume n: "\<not> isExpired now i"
    show "\<forall>x \<in> set its. isExpired now x \<longrightarrow> reservationId i \<noteq> reservationId x"
    proof (intro ballI impI notI)
      fix x assume x: "x \<in> set its" "isExpired now x" "reservationId i = reservationId x"
      obtain t where t: "reservationId x = Some t" using isExpired_token[OF x(2)] by blast
      have "i = x" using uniqueTokensD[OF assms i x(1) _ t] x(3) t by simp
      then show False using n x(2) by simp
    qed
  qed
qed

text \<open>
  Claim C7: \<^verbatim>\<open>refreshReservations\<close> releases every line that holds a token and is older
  than the 15 minutes of \<open>RESERVATION_TIMEOUT\<close> (the line leaves the cart, and the row of its
  product gets the line's quantity taken off \<open>reserved_stock\<close>, floored at 0), and leaves
  every other line, and the row of its product, as they are. The cart is one with a single
  line per product and no token shared between lines, the table one with a key per row.
\<close>

theorem refresh_releases_expired_lines:
  assumes dp: "distinctProducts (items s)"
    and ut: "uniqueTokens (items s)"
    and keys: "distinct (map rowKey (inventory_table s))"
  shows "items (refreshReservations now s) = filter (\<lambda>i. \<not> isExpired now i) (items s)
       \<and> (\<forall>i \<in> set (items s).
             getInventory (inventory_table (refreshReservations now s)) (itemProductId i) =
               (if isExpired now i
                then map_option (\<lambda>row. row\<lparr>reserved_stock := max 0 (reserved_stock row - quantity i)\<rparr>)
                       (getInventory (inventory_table s) (itemProductId i))
                else getInventory (inventory_table s) (itemProductId i)))"
proof
  show "items (refreshReservations now s) = filter (\<lambda>i. \<not> isExpired now i) (items s)"
    by (simp add: refreshReservations_def refreshLoop_items unexpired_filter[OF ut])
next
  have d: "distinct (map itemProductId (items s))" using dp by (simp add: distinctProducts_def)
  show "\<forall>i \<in> set (items s).
             getInventory (inventory_table (refreshReservations now s)) (itemProductId i) =
               (if isExpired now i
                then map_option (\<lambda>row. row\<lparr>reserved_stock := max 0 (reserved_stock row - quantity i)\<rparr>)
                       (getInventory (inventory_table s) (itemProductId i))
                else getInventory (inventory_table s) (itemProductId i))"
  proof
    fix i assume i: "i \<in> set (items s)"
    have "getInventory (inventory_table (refreshReservations now s)) (itemProductId i) =
      (case find (\<lambda>x. itemProductId x = itemProductId i \<and> isExpired now x) (items s) of
        None \<Rightarrow> getInventory (inventory_table s) (itemProductId i)
      | Some x \<Rightarrow> map_option (\<lambda>row. row\<lparr>reserved_stock := max 0 (reserved_stock row - quantity x)\<rparr>)
                   (getInventory (inventory_table s) (itemProductId i)))"
      unfolding refreshReservations_def
      by (rule refreshLoop_lookup[OF keys d _ ut]) simp
    then show "getInventory (inventory_table (refreshReservations now s)) (itemProductId i) =
               (if isExpired now i
                then map_option (\<lambda>row. row\<lparr>reserved_stock := max 0 (reserved_stock row - quantity i)\<rparr>)
                       (getInventory (inventory_table s) (itemProductId i))
                else getInventory (inventory_table s) (itemProductId i))"
      by (simp add: find_by_product[OF d i])
  qed
qed

text \<open>
  An instance, at 900001 ms: the line of A, added at 0, is released and its 2 units are given
  back; the line of B, added at 500000 ms, stays. At 900000 ms the line of A is not yet
  expired: the comparison is strict.
\<close>

theorem refresh_releases_expired_lines_witness:
  "isExpired 900001 (lineA 10 0 2 (Some ''res_1_a'') 0)
   \<and> \<not> isExpired 900001 (lineB 4 0 1 (Some ''res_1_b'') 500000)
   \<and> \<not> isExpired 900000 (lineA 10 0 2 (Some ''res_1_a'') 0)
   \<and> items (refreshReservations 900001
        (shop [lineA 10 0 2 (Some ''res_1_a'') 0, lineB 4 0 1 (Some ''res_1_b'') 500000]
              [rowA 10 2 0, rowB 4 1 0])) = [lineB 4 0 1 (Some ''res_1_b'') 500000]
   \<and> getInventory (inventory_table (refreshReservations 900001
        (shop [lineA 10 0 2 (Some ''res_1_a'') 0, lineB 4 0 1 (Some ''res_1_b'') 500000]
              [rowA 10 2 0, rowB 4 1 0]))) ''A'' = Some (rowA 10 0 0)
   \<and> getInventory (inventory_table (refreshReservations 900001
        (shop [lineA 10 0 2 (Some ''res_1_a'') 0, lineB 4 0 1 (Some ''res_1_b'') 500000]
              [rowA 10 2 0, rowB 4 1 0]))) ''B'' = Some (rowB 4 1 0)"
proof -
  let ?a = "lineA 10 0 2 (Some ''res_1_a'') 0"
  let ?b = "lineB 4 0 1 (Some ''res_1_b'') 500000"
  let ?s = "shop [?a, ?b] [rowA 10 2 0, rowB 4 1 0]"
  have dp: "distinctProducts (items ?s)"
    by (simp add: distinctProducts_def itemProductId_def demo_defs)
  have ut: "uniqueTokens (items ?s)"
    by (simp add: uniqueTokens_def demo_defs)
  have keys: "distinct (map rowKey (inventory_table ?s))"
    by (simp add: rowKey_def demo_defs)
  have ea: "isExpired 900001 ?a" and eb: "\<not> isExpired 900001 ?b" and ec: "\<not> isExpired 900000 ?a"
    by (simp_all add: isExpired_def truthy_def RESERVATION_TIMEOUT_def demo_defs)
  have its: "items ?s = [?a, ?b]" by (simp add: shop_def)
  have pa: "itemProductId ?a = ''A''" and pb: "itemProductId ?b = ''B''"
    by (simp_all add: itemProductId_def demo_defs)
  have ga: "getInventory (inventory_table ?s) ''A'' = Some (rowA 10 2 0)"
    and gb: "getInventory (inventory_table ?s) ''B'' = Some (rowB 4 1 0)"
    by (simp_all add: getInventory_def demo_defs)
  have qa: "(rowA 10 2 0)\<lparr>reserved_stock := max 0 (reserved_stock (rowA 10 2 0) - quantity ?a)\<rparr> = rowA 10 0 0"
    by (simp add: demo_defs)
  note t = refresh_releases_expired_lines[OF dp ut keys, of 900001]
  have 1: "items (refreshReservations 900001 ?s) = [?b]"
    using t ea eb by (simp add: its)
  have 2: "getInventory (inventory_table (refreshReservations 900001 ?s)) ''A'' = Some (rowA 10 0 0)"
    using t ea by (simp add: its pa ga qa)
  have 3: "getInventory (inventory_table (refreshReservations 900001 ?s)) ''B'' = Some (rowB 4 1 0)"
    using t eb by (simp add: its pb gb)
  show ?thesis using ea eb ec 1 2 3 by simp
qed

section \<open>The order and the commit step of the checkout\<close>

lemma commitInventory_step:
  "commitInventory (item # rest) tbl =
     commitInventory rest (commitRow (itemProductId item) (quantity item) tbl)"
  by (simp add: commitRow_def)

lemma commitRow_same:
  "getInventory (commitRow pid q tbl) pid = map_option (soldRow q) (getInventory tbl pid)"
  by (cases "getInventory tbl pid")
     (simp_all add: commitRow_def soldRow_def getInventory_updateItem)

lemma commitRow_other:
  assumes "distinct (map rowKey tbl)" "p \<noteq> pid"
  shows "getInventory (commitRow pid q tbl) p = getInventory tbl p"
proof (cases "getInventory tbl pid")
  case None
  then show ?thesis by (simp add: commitRow_def)
next
  case (Some row)
  then show ?thesis
    by (simp add: commitRow_def update_other_key[OF assms Some])
qed

lemma commitRow_keys: "map rowKey (commitRow pid q tbl) = map rowKey tbl"
proof (cases "getInventory tbl pid")
  case None
  then show ?thesis by (simp add: commitRow_def)
next
  case (Some row)
  have "map rowKey (updateItem tbl (inv_uid row) (inv_id row)
          (\<lambda>r. r\<lparr>current_stock := current_stock row - q,
                  reserved_stock := max 0 (reserved_stock row - q),
                  total_sold := total_sold row + q\<rparr>)) = map rowKey tbl"
    by (rule updateItem_keys) (simp add: rowKey_def)
  then show ?thesis using Some by (simp add: commitRow_def)
qed

lemma commitInventory_lookup:
  assumes "distinct (map rowKey tbl)" "distinct (map itemProductId xs)"
  shows "getInventory (commitInventory xs tbl) p =
     (case find (\<lambda>x. itemProductId x = p) xs of
        None \<Rightarrow> getInventory tbl p
      | Some x \<Rightarrow> map_option (soldRow (quantity x)) (getInventory tbl p))"
  using assms
proof (induction xs arbitrary: tbl)
  case Nil
  then show ?case by simp
next
  case (Cons x xs)
  let ?tbl' = "commitRow (itemProductId x) (quantity x) tbl"
  have keys': "distinct (map rowKey ?tbl')" using Cons.prems(1) by (simp add: commitRow_keys)
  have dxs: "distinct (map itemProductId xs)" using Cons.prems(2) by simp
  have step: "getInventory (commitInventory (x # xs) tbl) p = getInventory (commitInventory xs ?tbl') p"
    by (simp only: commitInventory_step)
  note IH = Cons.IH[OF keys' dxs]
  show ?case
  proof (cases "itemProductId x = p")
    case True
    have "\<not> (\<exists>y. y \<in> set xs \<and> itemProductId y = p)"
    proof
      assume "\<exists>y. y \<in> set xs \<and> itemProductId y = p"
      then obtain y where "y \<in> set xs" "itemProductId y = p" by blast
      then have "p \<in> set (map itemProductId xs)" by force
      then show False using Cons.prems(2) True by simp
    qed
    then have n: "find (\<lambda>y. itemProductId y = p) xs = None"
      by (simp add: find_None_iff)
    have "getInventory (commitInventory xs ?tbl') p = getInventory ?tbl' p"
      unfolding IH n by simp
    also have "\<dots> = map_option (soldRow (quantity x)) (getInventory tbl p)"
      using True by (simp add: commitRow_same)
    finally have "getInventory (commitInventory xs ?tbl') p =
        map_option (soldRow (quantity x)) (getInventory tbl p)" .
    moreover have "find (\<lambda>y. itemProductId y = p) (x # xs) = Some x" using True by simp
    ultimately show ?thesis unfolding step by (simp only: option.case)
  next
    case False
    then have "p \<noteq> itemProductId x" by blast
    then have e: "getInventory ?tbl' p = getInventory tbl p"
      by (rule commitRow_other[OF Cons.prems(1)])
    have "find (\<lambda>y. itemProductId y = p) (x # xs) = find (\<lambda>y. itemProductId y = p) xs"
      using False by simp
    then show ?thesis unfolding step IH e by (simp only:)
  qed
qed

lemma releaseReservation_current:
  "map_option current_stock (getInventory (inventory_table (releaseReservation t s)) p) =
   map_option current_stock (getInventory (inventory_table s) p)"
proof (cases "find (\<lambda>item. reservationId item = Some t) (items s)")
  case None
  then show ?thesis by (simp add: releaseReservation_none)
next
  case (Some item)
  show ?thesis by (simp only: releaseReservation_table[OF Some] releaseRow_current)
qed

lemma releaseAll_step:
  "releaseAll (item # rest) s =
     releaseAll rest (if truthy (reservationId item)
                      then releaseReservation (the (reservationId item)) s else s)"
  by (simp add: truthy_def split: option.splits)

lemma releaseAll_current:
  "map_option current_stock (getInventory (inventory_table (releaseAll xs s)) p) =
   map_option current_stock (getInventory (inventory_table s) p)"
proof (induction xs arbitrary: s)
  case Nil
  then show ?case by simp
next
  case (Cons x xs)
  show ?case
    by (cases "truthy (reservationId x)")
       (simp_all only: releaseAll_step Cons.IH releaseReservation_current if_True if_False)
qed

lemma releaseAll_orders: "orders_table (releaseAll xs s) = orders_table s"
proof (induction xs arbitrary: s)
  case Nil
  then show ?case by simp
next
  case (Cons x xs)
  show ?case
    by (cases "truthy (reservationId x)")
       (simp_all only: releaseAll_step Cons.IH releaseReservation_orders if_True if_False)
qed

lemma foldl_sum: "foldl (\<lambda>total item. total + f item) (a::int) xs = a + sum_list (map f xs)"
  by (induction xs arbitrary: a) simp_all

lemma getTotalPrice_sum:
  "getTotalPrice s = (\<Sum>item \<leftarrow> items s. price (product (cproduct item)) * quantity item)"
  by (simp add: getTotalPrice_def foldl_sum)


lemma handleCheckout_unfold:
  assumes "items s \<noteq> []"
  shows "handleCheckout True email stamp s =
     closeCart (clearCart (s\<lparr>orders_table := orders_table s @ [makeOrder email stamp s],
                             inventory_table := commitInventory (items s) (inventory_table s)\<rparr>))"
  using assms by (simp add: handleCheckout_def Let_def)

text \<open>
  Claim C2, as the code has it. For a signed-in user and a non-empty cart with one line per
  product, on a table with a key per row, \<^verbatim>\<open>handleCheckout\<close> appends one order whose
  subtotal is the sum of unit price times quantity over the lines, in integer cents, whose
  shipping is 500 unless the subtotal exceeds 5000 (then 0), whose tax is 8 percent of the
  subtotal rounded to the nearest cent, and whose total is the sum of the three. For each line
  whose product has an inventory row, the commit step writes \<open>current_stock - quantity\<close>,
  \<open>reserved_stock - quantity\<close> floored at 0 and \<open>total_sold + quantity\<close>; the
  \<open>current_stock\<close> written is what the row still has when the checkout ends, and the cart
  ends empty.
\<close>

theorem checkout_order_and_commit:
  assumes ne: "items s \<noteq> []"
    and dp: "distinctProducts (items s)"
    and keys: "distinct (map rowKey (inventory_table s))"
  shows "orders_table (handleCheckout True email stamp s) = orders_table s @ [makeOrder email stamp s]
       \<and> subtotal (makeOrder email stamp s)
           = (\<Sum>item \<leftarrow> items s. price (product (cproduct item)) * quantity item)
       \<and> shipping_cost (makeOrder email stamp s)
           = (if subtotal (makeOrder email stamp s) > 5000 then 0 else 500)
       \<and> tax_amount (makeOrder email stamp s) = (8 * subtotal (makeOrder email stamp s) + 50) div 100
       \<and> total_amount (makeOrder email stamp s)
           = subtotal (makeOrder email stamp s) + shipping_cost (makeOrder email stamp s)
             + tax_amount (makeOrder email stamp s)
       \<and> (\<forall>item \<in> set (items s). \<forall>row.
            getInventory (inventory_table s) (itemProductId item) = Some row \<longrightarrow>
              getInventory (commitInventory (items s) (inventory_table s)) (itemProductId item)
                = Some (row\<lparr>current_stock := current_stock row - quantity item,
                             reserved_stock := max 0 (reserved_stock row - quantity item),
                             total_sold := total_sold row + quantity item\<rparr>)
            \<and> map_option current_stock
                 (getInventory (inventory_table (handleCheckout True email stamp s)) (itemProductId item))
                = Some (current_stock row - quantity item))
       \<and> items (handleCheckout True email stamp s) = []"
proof -
  let ?s2 = "s\<lparr>orders_table := orders_table s @ [makeOrder email stamp s],
               inventory_table := commitInventory (items s) (inventory_table s)\<rparr>"
  note h = handleCheckout_unfold[OF ne, of email stamp]
  have d: "distinct (map itemProductId (items s))" using dp by (simp add: distinctProducts_def)
  have 1: "orders_table (handleCheckout True email stamp s) = orders_table s @ [makeOrder email stamp s]"
    by (simp add: h closeCart_def clearCart_def releaseAll_orders)
  have 2: "subtotal (makeOrder email stamp s)
           = (\<Sum>item \<leftarrow> items s. price (product (cproduct item)) * quantity item)"
    by (simp add: makeOrder_def Let_def getTotalPrice_sum)
  have 3: "shipping_cost (makeOrder email stamp s)
           = (if subtotal (makeOrder email stamp s) > 5000 then 0 else 500)"
    by (simp add: makeOrder_def Let_def)
  have 4: "tax_amount (makeOrder email stamp s) = (8 * subtotal (makeOrder email stamp s) + 50) div 100"
    by (simp add: makeOrder_def Let_def mult.commute)
  have 5: "total_amount (makeOrder email stamp s)
           = subtotal (makeOrder email stamp s) + shipping_cost (makeOrder email stamp s)
             + tax_amount (makeOrder email stamp s)"
    by (simp add: makeOrder_def Let_def)
  have 6: "getInventory (commitInventory (items s) (inventory_table s)) (itemProductId item)
                = Some (row\<lparr>current_stock := current_stock row - quantity item,
                             reserved_stock := max 0 (reserved_stock row - quantity item),
                             total_sold := total_sold row + quantity item\<rparr>)"
    if "item \<in> set (items s)" "getInventory (inventory_table s) (itemProductId item) = Some row"
    for item row
  proof -
    have "find (\<lambda>x. itemProductId x = itemProductId item \<and> True) (items s) = Some item"
      using find_by_product[OF d that(1), of "\<lambda>_. True"] by simp
    then have "find (\<lambda>x. itemProductId x = itemProductId item) (items s) = Some item" by simp
    then show ?thesis
      by (simp add: commitInventory_lookup[OF keys d] that(2) soldRow_def)
  qed
  have 7: "map_option current_stock
                 (getInventory (inventory_table (handleCheckout True email stamp s)) (itemProductId item))
                = Some (current_stock row - quantity item)"
    if "item \<in> set (items s)" "getInventory (inventory_table s) (itemProductId item) = Some row"
    for item row
  proof -
    have "map_option current_stock
            (getInventory (inventory_table (handleCheckout True email stamp s)) (itemProductId item))
          = map_option current_stock
              (getInventory (commitInventory (items s) (inventory_table s)) (itemProductId item))"
      by (simp add: h closeCart_def clearCart_def releaseAll_current)
    then show ?thesis by (simp add: 6[OF that])
  qed
  have 8: "items (handleCheckout True email stamp s) = []"
    by (simp add: h closeCart_def clearCart_def)
  show ?thesis using 1 2 3 4 5 6 7 8 by blast
qed

text \<open>
  The cart of 2 units of A at 1000 and 1 unit of B at 1500: subtotal 3500, shipping 500, tax
  280, total 4280; the commit step takes 2 and 1 off both counters.
\<close>

theorem checkout_order_and_commit_witness:
  "subtotal (makeOrder ''ann@example.org'' ''1700000000000''
      (shop [lineA 10 0 2 (Some ''res_1_a'') 0, lineB 4 0 1 (Some ''res_1_b'') 0] [rowA 10 2 0, rowB 4 1 0])) = 3500
   \<and> shipping_cost (makeOrder ''ann@example.org'' ''1700000000000''
      (shop [lineA 10 0 2 (Some ''res_1_a'') 0, lineB 4 0 1 (Some ''res_1_b'') 0] [rowA 10 2 0, rowB 4 1 0])) = 500
   \<and> tax_amount (makeOrder ''ann@example.org'' ''1700000000000''
      (shop [lineA 10 0 2 (Some ''res_1_a'') 0, lineB 4 0 1 (Some ''res_1_b'') 0] [rowA 10 2 0, rowB 4 1 0])) = 280
   \<and> total_amount (makeOrder ''ann@example.org'' ''1700000000000''
      (shop [lineA 10 0 2 (Some ''res_1_a'') 0, lineB 4 0 1 (Some ''res_1_b'') 0] [rowA 10 2 0, rowB 4 1 0])) = 4280
   \<and> length (orders_table (handleCheckout True ''ann@example.org'' ''1700000000000''
      (shop [lineA 10 0 2 (Some ''res_1_a'') 0, lineB 4 0 1 (Some ''res_1_b'') 0] [rowA 10 2 0, rowB 4 1 0]))) = 1
   \<and> commitInventory [lineA 10 0 2 (Some ''res_1_a'') 0, lineB 4 0 1 (Some ''res_1_b'') 0]
        [rowA 10 2 0, rowB 4 1 0] = [rowA 8 0 2, rowB 3 0 1]
   \<and> map_option current_stock (getInventory (inventory_table
        (handleCheckout True ''ann@example.org'' ''1700000000000''
          (shop [lineA 10 0 2 (Some ''res_1_a'') 0, lineB 4 0 1 (Some ''res_1_b'') 0] [rowA 10 2 0, rowB 4 1 0])))
        ''A'') = Some 8
   \<and> map_option current_stock (getInventory (inventory_table
        (handleCheckout True ''ann@example.org'' ''1700000000000''
          (shop [lineA 10 0 2 (Some ''res_1_a'') 0, lineB 4 0 1 (Some ''res_1_b'') 0] [rowA 10 2 0, rowB 4 1 0])))
        ''B'') = Some 3"
proof -
  let ?a = "lineA 10 0 2 (Some ''res_1_a'') 0"
  let ?b = "lineB 4 0 1 (Some ''res_1_b'') 0"
  let ?s = "shop [?a, ?b] [rowA 10 2 0, rowB 4 1 0]"
  have its: "items ?s = [?a, ?b]" and tbl: "inventory_table ?s = [rowA 10 2 0, rowB 4 1 0]"
    and ords: "orders_table ?s = []"
    by (simp_all add: shop_def)
  have ne: "items ?s \<noteq> []" by (simp add: its)
  have dp: "distinctProducts (items ?s)"
    by (simp add: distinctProducts_def itemProductId_def demo_defs)
  have keys: "distinct (map rowKey (inventory_table ?s))"
    by (simp add: rowKey_def demo_defs)
  have pa: "itemProductId ?a = ''A''" and pb: "itemProductId ?b = ''B''"
    by (simp_all add: itemProductId_def demo_defs)
  have ga: "getInventory (inventory_table ?s) ''A'' = Some (rowA 10 2 0)"
    and gb: "getInventory (inventory_table ?s) ''B'' = Some (rowB 4 1 0)"
    by (simp_all add: getInventory_def demo_defs)
  have va: "price (product (cproduct ?a)) = 1000" "quantity ?a = 2" "current_stock (rowA 10 2 0) = 10"
    and vb: "price (product (cproduct ?b)) = 1500" "quantity ?b = 1" "current_stock (rowB 4 1 0) = 4"
    by (simp_all add: demo_defs)
  have c: "commitInventory [?a, ?b] [rowA 10 2 0, rowB 4 1 0] = [rowA 8 0 2, rowB 3 0 1]"
    by (simp add: itemProductId_def getInventory_def updateItem_def demo_defs)
  note t = checkout_order_and_commit[OF ne dp keys, of "''ann@example.org''" "''1700000000000''"]
  have 1: "subtotal (makeOrder ''ann@example.org'' ''1700000000000'' ?s) = 3500"
    using t by (simp add: its va vb)
  have 2: "shipping_cost (makeOrder ''ann@example.org'' ''1700000000000'' ?s) = 500"
    using t 1 by simp
  have 3: "tax_amount (makeOrder ''ann@example.org'' ''1700000000000'' ?s) = 280"
    using t 1 by simp
  have 4: "total_amount (makeOrder ''ann@example.org'' ''1700000000000'' ?s) = 4280"
    using t 1 2 3 by simp
  have 5: "length (orders_table (handleCheckout True ''ann@example.org'' ''1700000000000'' ?s)) = 1"
    using t by (simp add: ords)
  have 6: "map_option current_stock (getInventory (inventory_table
        (handleCheckout True ''ann@example.org'' ''1700000000000'' ?s)) ''A'') = Some 8"
    using t ga by (simp add: its pa va)
  have 7: "map_option current_stock (getInventory (inventory_table
        (handleCheckout True ''ann@example.org'' ''1700000000000'' ?s)) ''B'') = Some 3"
    using t gb by (simp add: its pb vb)
  show ?thesis using 1 2 3 4 5 c 6 7 by simp
qed

text \<open>
  Claim C2 as stated has \<open>reserved_stock\<close> decremented by the line quantity. The write is
  \<^verbatim>\<open>Math.max(0, inventory.reserved_stock - item.quantity)\<close>: with a line of 2 held units and
  a row that has only 1 unit reserved (here after \<^verbatim>\<open>releaseReservedStock\<close> of the inventory
  hook gave one unit back), the commit step writes \<open>reserved_stock = 0\<close>, a decrement of
  1, and that is what the checkout leaves.
\<close>

theorem checkout_floors_reserved_counterexample:
  "releaseReservedStock ''A'' 1 [rowA 10 2 0] = Inr [rowA 10 1 0]
   \<and> commitInventory [lineA 10 0 2 (Some ''res_1_a'') 0] [rowA 10 1 0] = [rowA 8 0 2]
   \<and> inventory_table (handleCheckout True ''ann@example.org'' ''1700000000000''
        (shop [lineA 10 0 2 (Some ''res_1_a'') 0] [rowA 10 1 0])) = [rowA 8 0 2]"
  by (simp add: checkout_eval releaseReservedStock_def)

text \<open>
  The shipping threshold is strict (a subtotal of exactly 5000 pays shipping), and the order
  number is \<open>AC\<close> followed by the last eight digits of the clock reading.
\<close>

lemma shipping_threshold_examples:
  "shipping_cost (makeOrder ''ann@example.org'' ''1700000000000'' (shop [lineA 10 0 5 None 0] [])) = 500
   \<and> subtotal (makeOrder ''ann@example.org'' ''1700000000000'' (shop [lineA 10 0 5 None 0] [])) = 5000
   \<and> shipping_cost (makeOrder ''ann@example.org'' ''1700000000000'' (shop [lineA 10 0 6 None 0] [])) = 0
   \<and> order_number (makeOrder ''ann@example.org'' ''1700000012345'' (shop [lineA 10 0 6 None 0] [])) = ''AC00012345''"
  by (simp add: checkout_eval)

section \<open>Available stock\<close>

lemma withInventory_mem:
  "e \<in> set (withInventory ps tbl) \<Longrightarrow>
     getInventory tbl (p_id (product e)) = Some (inventory e)
     \<and> available_stock e = max 0 (current_stock (inventory e) - reserved_stock (inventory e))"
proof (induction ps)
  case Nil
  then show ?case by simp
next
  case (Cons p ps)
  show ?case
  proof (cases "getInventory tbl (p_id p)")
    case None
    then show ?thesis using Cons by simp
  next
    case (Some row)
    then have "e = \<lparr>product = p, inventory = row,
                    available_stock = max 0 (current_stock row - reserved_stock row)\<rparr>
               \<or> e \<in> set (withInventory ps tbl)"
      using Cons.prems by simp
    then show ?thesis
    proof
      assume "e = \<lparr>product = p, inventory = row,
                    available_stock = max 0 (current_stock row - reserved_stock row)\<rparr>"
      then show ?thesis using Some by simp
    next
      assume "e \<in> set (withInventory ps tbl)"
      then show ?thesis by (rule Cons.IH)
    qed
  qed
qed

lemma reserveStock_insufficient:
  assumes "getInventory tbl pid = Some row"
  shows "(reserveStock pid q tbl = Inl ''Insufficient stock available'')
           = (max 0 (current_stock row - reserved_stock row) < q)"
  by (simp add: reserveStock_def assms Let_def)

lemma checkProductAvailability_floor:
  assumes "getInventory tbl pid = Some row" "1 \<le> q"
  shows "checkProductAvailability tbl pid q = (q \<le> max 0 (current_stock row - reserved_stock row))"
  using assms(2) by (simp add: checkProductAvailability_def assms(1) Let_def max_def)

text \<open>
  \<^verbatim>\<open>addItem\<close>, \<^verbatim>\<open>reserveInventory\<close> and \<^verbatim>\<open>releaseReservation\<close> write only the
  \<open>reserved_stock\<close> of a row: whatever of the rows does not depend on that field (the
  product, the stock) is the same after any sequence of calls, row by row.
\<close>

lemma updateItem_frame:
  assumes "\<And>r. g (f r) = g r"
  shows "map g (updateItem tbl uid rid f) = map g tbl"
  by (simp add: updateItem_def assms)

lemma reserveInventory_frame:
  assumes "\<And>r v. g (r\<lparr>reserved_stock := v\<rparr>) = g r"
  shows "map g (inventory_table (snd (reserveInventory pid q stamp rnd s))) = map g (inventory_table s)"
  by (cases "getInventory (inventory_table s) pid")
     (simp_all add: reserveInventory_def Let_def updateItem_frame assms)

lemma releaseReservation_frame:
  assumes "\<And>r v. g (r\<lparr>reserved_stock := v\<rparr>) = g r"
  shows "map g (inventory_table (releaseReservation t s)) = map g (inventory_table s)"
  by (simp add: releaseReservation_def Let_def updateItem_frame assms split: option.splits)

lemma addItem_table:
  "inventory_table (snd (addItem pwi qty stamp rnd now s)) = inventory_table s
   \<or> inventory_table (snd (addItem pwi qty stamp rnd now s))
       = inventory_table (snd (reserveInventory (p_id (product pwi)) qty stamp rnd s))"
  by (cases "reserveInventory (p_id (product pwi)) qty stamp rnd s") (simp add: addItem_def Let_def)

lemma addItem_frame:
  assumes "\<And>r v. g (r\<lparr>reserved_stock := v\<rparr>) = g r"
  shows "map g (inventory_table (snd (addItem pwi qty stamp rnd now s))) = map g (inventory_table s)"
proof -
  consider (a) "inventory_table (snd (addItem pwi qty stamp rnd now s)) = inventory_table s"
    | (b) "inventory_table (snd (addItem pwi qty stamp rnd now s))
            = inventory_table (snd (reserveInventory (p_id (product pwi)) qty stamp rnd s))"
    using addItem_table by blast
  then show ?thesis
  proof cases
    case a
    then show ?thesis by simp
  next
    case b
    show ?thesis unfolding b by (rule reserveInventory_frame) (rule assms)
  qed
qed

lemma runOps_frame:
  assumes "\<And>r v. g (r\<lparr>reserved_stock := v\<rparr>) = g r"
  shows "map g (inventory_table (runOps ops s)) = map g (inventory_table s)"
proof (induction ops arbitrary: s)
  case Nil
  show ?case by simp
next
  case (Cons c cs)
  have "map g (inventory_table (runOp c s)) = map g (inventory_table s)"
    by (cases c) (simp_all add: addItem_frame[OF assms] reserveInventory_frame[OF assms]
        releaseReservation_frame[OF assms])
  then show ?case by (simp add: Cons.IH)
qed

lemma runOps_snoc: "runOps (ops @ [c]) s = runOp c (runOps ops s)"
  by (induction ops arbitrary: s) simp_all

lemma getInventory_frame:
  assumes "map product_id xs = map product_id ys" "map current_stock xs = map current_stock ys"
  shows "map_option current_stock (getInventory xs p) = map_option current_stock (getInventory ys p)"
  using assms unfolding getInventory_def
proof (induction xs arbitrary: ys)
  case Nil
  then show ?case by simp
next
  case (Cons x xs)
  then obtain y ys' where ys: "ys = y # ys'" by (cases ys) auto
  have "map_option current_stock (find (\<lambda>r. product_id r = p) xs)
        = map_option current_stock (find (\<lambda>r. product_id r = p) ys')"
    using Cons.IH[of ys'] Cons.prems ys by simp
  then show ?case using Cons.prems ys by simp
qed

lemma runOps_lookup:
  assumes "getInventory (inventory_table s) pid = Some row"
  shows "\<exists>row'. getInventory (inventory_table (runOps ops s)) pid = Some row'
              \<and> current_stock row' = current_stock row"
proof -
  have "map_option current_stock (getInventory (inventory_table (runOps ops s)) pid)
        = map_option current_stock (getInventory (inventory_table s) pid)"
    by (rule getInventory_frame) (simp_all add: runOps_frame)
  then show ?thesis using assms by (cases "getInventory (inventory_table (runOps ops s)) pid") simp_all
qed

text \<open>
  On a table with one row per product, the \<^verbatim>\<open>inventoryMap\<close> of \<^verbatim>\<open>loadProducts\<close> holds for
  each product the row that the query by \<open>product_id\<close> returns.
\<close>

lemma fold_inventoryMap:
  assumes "distinct (map product_id rows)"
  shows "fold (\<lambda>item m. m(product_id item \<mapsto> item)) rows m0 pid
       = (if pid \<in> product_id ` set rows then find (\<lambda>r. product_id r = pid) rows else m0 pid)"
  using assms
proof (induction rows arbitrary: m0)
  case Nil
  show ?case by simp
next
  case (Cons x xs)
  have d: "distinct (map product_id xs)" and n: "product_id x \<notin> product_id ` set xs"
    using Cons.prems by simp_all
  have s: "fold (\<lambda>item m. m(product_id item \<mapsto> item)) (x # xs) m0 pid
         = fold (\<lambda>item m. m(product_id item \<mapsto> item)) xs (m0(product_id x \<mapsto> x)) pid"
    by (simp only: fold_simps)
  have ih: "fold (\<lambda>item m. m(product_id item \<mapsto> item)) xs (m0(product_id x \<mapsto> x)) pid
         = (if pid \<in> product_id ` set xs then find (\<lambda>r. product_id r = pid) xs
            else (m0(product_id x \<mapsto> x)) pid)"
    by (rule Cons.IH[OF d])
  show ?case
  proof (cases "product_id x = pid")
    case True
    then have "pid \<notin> product_id ` set xs" using n by simp
    then show ?thesis unfolding s ih using True by simp
  next
    case False
    then show ?thesis unfolding s ih by auto
  qed
qed

lemma inventoryMap_getInventory:
  assumes "distinct (map product_id rows)"
  shows "inventoryMap rows pid = getInventory rows pid"
proof (cases "pid \<in> product_id ` set rows")
  case True
  then show ?thesis by (simp add: inventoryMap_def getInventory_def fold_inventoryMap[OF assms])
next
  case False
  then have "find (\<lambda>r. product_id r = pid) rows = None"
    by (auto simp: find_None_iff)
  then show ?thesis using False
    by (simp add: inventoryMap_def getInventory_def fold_inventoryMap[OF assms])
qed

lemma loadProducts_mem:
  assumes "e \<in> set (loadProducts products tbl)" "distinct (map product_id tbl)" "length tbl \<le> 100"
  shows "lp_inventory e = getInventory tbl (p_id (lp_product e))"
    and "lp_available_stock e =
           (case getInventory tbl (p_id (lp_product e)) of
              Some i \<Rightarrow> max 0 (current_stock i - reserved_stock i) | None \<Rightarrow> 0)"
proof -
  have t: "take 100 tbl = tbl" using assms(3) by simp
  obtain p where e: "e = \<lparr>lp_product = p, lp_inventory = getInventory tbl (p_id p),
       lp_available_stock = (case getInventory tbl (p_id p) of
              Some i \<Rightarrow> max 0 (current_stock i - reserved_stock i) | None \<Rightarrow> 0)\<rparr>"
    using assms(1) by (auto simp: loadProducts_def Let_def t inventoryMap_getInventory[OF assms(2)])
  show "lp_inventory e = getInventory tbl (p_id (lp_product e))" by (simp add: e)
  show "lp_available_stock e =
           (case getInventory tbl (p_id (lp_product e)) of
              Some i \<Rightarrow> max 0 (current_stock i - reserved_stock i) | None \<Rightarrow> 0)"
    by (simp add: e)
qed

text \<open>
  Claim C6, as the code has it. Take a product that has an inventory row, and any sequence of
  \<^verbatim>\<open>addItem\<close>, \<^verbatim>\<open>reserveInventory\<close> and \<^verbatim>\<open>releaseReservation\<close> calls. After the calls
  the product still has a row, with the \<open>current_stock\<close> it had before, and the available
  stock that is computed from the table at that moment is
  \<open>max 0 (current_stock - reserved_stock)\<close> for that \<open>current_stock\<close> and the
  \<open>reserved_stock\<close> the calls have left:
  \<^item> in the entry of \<^verbatim>\<open>getProductsWithInventory\<close> for the product;
  \<^item> in the entry of \<^verbatim>\<open>loadProducts\<close> for the product, on a table of at most 100 rows with
    one row per product;
  \<^item> as the \<^verbatim>\<open>available\<close> of \<^verbatim>\<open>loadInventoryStats\<close> and the \<^verbatim>\<open>availableStock\<close> of
    \<^verbatim>\<open>calculateTotalStockValue\<close>;
  \<^item> as the value below which \<^verbatim>\<open>reserveStock\<close> refuses with "Insufficient stock available";
  \<^item> as the value that decides \<^verbatim>\<open>checkProductAvailability\<close> for a quantity of at least 1.

  What the calls leave in \<open>reserved_stock\<close>: one more \<^verbatim>\<open>reserveInventory\<close> of \<open>n\<close> units,
  or one more \<^verbatim>\<open>addItem\<close> of \<open>n\<close> units that returns \<^verbatim>\<open>true\<close>, adds \<open>n\<close>; the release of a
  line of the product takes the quantity of the line off, floored at 0.
\<close>

theorem available_stock_after_operations:
  assumes row: "getInventory (inventory_table s) pid = Some row"
  shows "\<exists>row'. getInventory (inventory_table (runOps ops s)) pid = Some row'
      \<and> current_stock row' = current_stock row
      \<and> (\<forall>e \<in> set (getProductsWithInventory products (inventory_table (runOps ops s))).
            p_id (product e) = pid \<longrightarrow>
              inventory e = row'
            \<and> available_stock e = max 0 (current_stock row - reserved_stock row'))
      \<and> (distinct (map product_id (inventory_table s)) \<and> length (inventory_table s) \<le> 100 \<longrightarrow>
           (\<forall>e \<in> set (loadProducts catalog (inventory_table (runOps ops s))).
              p_id (lp_product e) = pid \<longrightarrow>
                lp_inventory e = Some row'
              \<and> lp_available_stock e = max 0 (current_stock row - reserved_stock row')))
      \<and> statsAvailable row' = max 0 (current_stock row - reserved_stock row')
      \<and> analyticsAvailable row' = max 0 (current_stock row - reserved_stock row')
      \<and> ((reserveStock pid q (inventory_table (runOps ops s)) = Inl ''Insufficient stock available'')
           = (max 0 (current_stock row - reserved_stock row') < q))
      \<and> (1 \<le> q \<longrightarrow>
           checkProductAvailability (inventory_table (runOps ops s)) pid q
             = (q \<le> max 0 (current_stock row - reserved_stock row')))
      \<and> getInventory (inventory_table (runOps (ops @ [Reserve pid n stamp rnd]) s)) pid
           = Some (row'\<lparr>reserved_stock := reserved_stock row' + n\<rparr>)
      \<and> (p_id (product pwi) = pid \<and> fst (addItem pwi n stamp rnd now (runOps ops s)) \<longrightarrow>
           getInventory (inventory_table (runOps (ops @ [Add pwi n stamp rnd now]) s)) pid
             = Some (row'\<lparr>reserved_stock := reserved_stock row' + n\<rparr>))
      \<and> (\<forall>item. find (\<lambda>i. reservationId i = Some t) (items (runOps ops s)) = Some item
                 \<and> itemProductId item = pid \<longrightarrow>
           getInventory (inventory_table (runOps (ops @ [Release t]) s)) pid
             = Some (row'\<lparr>reserved_stock := max 0 (reserved_stock row' - quantity item)\<rparr>))"
proof -
  let ?s' = "runOps ops s"
  let ?tbl = "inventory_table ?s'"
  obtain row' where g: "getInventory ?tbl pid = Some row'" and c: "current_stock row' = current_stock row"
    using runOps_lookup[OF row] by blast
  have 1: "\<forall>e \<in> set (getProductsWithInventory products ?tbl).
            p_id (product e) = pid \<longrightarrow>
              inventory e = row'
            \<and> available_stock e = max 0 (current_stock row - reserved_stock row')"
  proof (intro ballI impI)
    fix e assume "e \<in> set (getProductsWithInventory products ?tbl)" and p: "p_id (product e) = pid"
    then have e: "e \<in> set (withInventory products ?tbl)"
      by (simp add: getProductsWithInventory_def)
    have i: "inventory e = row'"
      using withInventory_mem[OF e] g p by simp
    have "available_stock e = max 0 (current_stock (inventory e) - reserved_stock (inventory e))"
      using withInventory_mem[OF e] by simp
    then show "inventory e = row' \<and> available_stock e = max 0 (current_stock row - reserved_stock row')"
      using i c by simp
  qed
  have 2: "distinct (map product_id (inventory_table s)) \<and> length (inventory_table s) \<le> 100 \<longrightarrow>
           (\<forall>e \<in> set (loadProducts catalog ?tbl).
              p_id (lp_product e) = pid \<longrightarrow>
                lp_inventory e = Some row'
              \<and> lp_available_stock e = max 0 (current_stock row - reserved_stock row'))"
  proof (intro impI ballI)
    fix e
    assume a: "distinct (map product_id (inventory_table s)) \<and> length (inventory_table s) \<le> 100"
      and e: "e \<in> set (loadProducts catalog ?tbl)" and p: "p_id (lp_product e) = pid"
    have m: "map product_id ?tbl = map product_id (inventory_table s)"
      by (rule runOps_frame) simp
    have d: "distinct (map product_id ?tbl)" using a by (simp only: m)
    have "length (map product_id ?tbl) = length (map product_id (inventory_table s))"
      by (simp only: m)
    then have l: "length ?tbl \<le> 100" using a by simp
    show "lp_inventory e = Some row'
          \<and> lp_available_stock e = max 0 (current_stock row - reserved_stock row')"
      using loadProducts_mem[OF e d l] p g c by simp
  qed
  have 3: "statsAvailable row' = max 0 (current_stock row - reserved_stock row')"
    by (simp add: statsAvailable_def c)
  have 4: "analyticsAvailable row' = max 0 (current_stock row - reserved_stock row')"
    by (simp add: analyticsAvailable_def c)
  have 5: "(reserveStock pid q ?tbl = Inl ''Insufficient stock available'')
           = (max 0 (current_stock row - reserved_stock row') < q)"
    using reserveStock_insufficient[OF g, of q] c by simp
  have 6: "1 \<le> q \<longrightarrow>
           checkProductAvailability ?tbl pid q = (q \<le> max 0 (current_stock row - reserved_stock row'))"
    using checkProductAvailability_floor[OF g, of q] c by simp
  have 7: "getInventory (inventory_table (runOps (ops @ [Reserve pid n stamp rnd]) s)) pid
           = Some (row'\<lparr>reserved_stock := reserved_stock row' + n\<rparr>)"
    by (simp add: runOps_snoc reserveInventory_lookup[OF g])
  have 8: "p_id (product pwi) = pid \<and> fst (addItem pwi n stamp rnd now ?s') \<longrightarrow>
           getInventory (inventory_table (runOps (ops @ [Add pwi n stamp rnd now]) s)) pid
             = Some (row'\<lparr>reserved_stock := reserved_stock row' + n\<rparr>)"
  proof
    assume a: "p_id (product pwi) = pid \<and> fst (addItem pwi n stamp rnd now ?s')"
    have "inventory_table (snd (addItem pwi n stamp rnd now ?s'))
            = inventory_table (snd (reserveInventory pid n stamp rnd ?s'))"
      using a by (cases "reserveInventory pid n stamp rnd ?s'")
                 (auto simp: addItem_def Let_def split: if_splits)
    then show "getInventory (inventory_table (runOps (ops @ [Add pwi n stamp rnd now]) s)) pid
             = Some (row'\<lparr>reserved_stock := reserved_stock row' + n\<rparr>)"
      by (simp add: runOps_snoc reserveInventory_lookup[OF g])
  qed
  have 9: "\<forall>item. find (\<lambda>i. reservationId i = Some t) (items ?s') = Some item
                 \<and> itemProductId item = pid \<longrightarrow>
           getInventory (inventory_table (runOps (ops @ [Release t]) s)) pid
             = Some (row'\<lparr>reserved_stock := max 0 (reserved_stock row' - quantity item)\<rparr>)"
  proof (intro allI impI)
    fix item
    assume a: "find (\<lambda>i. reservationId i = Some t) (items ?s') = Some item \<and> itemProductId item = pid"
    then have f: "find (\<lambda>i. reservationId i = Some t) (items ?s') = Some item" by simp
    show "getInventory (inventory_table (runOps (ops @ [Release t]) s)) pid
             = Some (row'\<lparr>reserved_stock := max 0 (reserved_stock row' - quantity item)\<rparr>)"
      using a by (simp add: runOps_snoc releaseReservation_table[OF f] releaseRow_same g)
  qed
  show ?thesis
    using g c 1 2 3 4 5 6 7 8 9 by blast
qed

text \<open>
  An instance. The table has 10 units of A, none reserved, and the cart holds 1 unit of B.
  Two units of A are added to the cart and the line of B is released: the table then has 2
  units of A reserved, and every computation gives 8 units of A available. Reserving 3 more
  units leaves 5 reserved, and releasing the line of A leaves none.
\<close>

theorem available_stock_after_operations_witness:
  "inventory_table (runOps [Add (snapA 10 0) 2 ''1700000000000'' ''zz'' 0, Release ''res_1_b'']
      (shop [lineB 4 0 1 (Some ''res_1_b'') 0] [rowA 10 0 0, rowB 4 1 0])) = [rowA 10 2 0, rowB 4 0 0]
   \<and> getProductsWithInventory [productA, productB] [rowA 10 2 0, rowB 4 0 0] = [snapA 10 2, snapB 4 0]
   \<and> available_stock (snapA 10 2) = 8
   \<and> loadProducts [productA, productB] [rowA 10 2 0, rowB 4 0 0]
      = [\<lparr>lp_product = productA, lp_inventory = Some (rowA 10 2 0), lp_available_stock = 8\<rparr>,
         \<lparr>lp_product = productB, lp_inventory = Some (rowB 4 0 0), lp_available_stock = 4\<rparr>]
   \<and> lp_available_stock (hd (loadProducts [productA, productB] [rowA 10 2 0, rowB 4 0 0])) = 8
   \<and> statsAvailable (rowA 10 2 0) = 8
   \<and> analyticsAvailable (rowA 10 2 0) = 8
   \<and> reserveStock ''A'' 9 [rowA 10 2 0, rowB 4 0 0] = Inl ''Insufficient stock available''
   \<and> checkProductAvailability [rowA 10 2 0, rowB 4 0 0] ''A'' 8 = True
   \<and> checkProductAvailability [rowA 10 2 0, rowB 4 0 0] ''A'' 9 = False
   \<and> getInventory (inventory_table
        (runOps ([Add (snapA 10 0) 2 ''1700000000000'' ''zz'' 0, Release ''res_1_b'']
                   @ [Reserve ''A'' 3 ''1700000000500'' ''yy''])
           (shop [lineB 4 0 1 (Some ''res_1_b'') 0] [rowA 10 0 0, rowB 4 1 0]))) ''A'' = Some (rowA 10 5 0)
   \<and> getInventory (inventory_table
        (runOps ([Add (snapA 10 0) 2 ''1700000000000'' ''zz'' 0, Release ''res_1_b'']
                   @ [Add (snapA 10 2) 3 ''1700000000500'' ''yy'' 0])
           (shop [lineB 4 0 1 (Some ''res_1_b'') 0] [rowA 10 0 0, rowB 4 1 0]))) ''A'' = Some (rowA 10 5 0)
   \<and> getInventory (inventory_table
        (runOps ([Add (snapA 10 0) 2 ''1700000000000'' ''zz'' 0, Release ''res_1_b'']
                   @ [Release ''res_1700000000000_zz''])
           (shop [lineB 4 0 1 (Some ''res_1_b'') 0] [rowA 10 0 0, rowB 4 1 0]))) ''A'' = Some (rowA 10 0 0)"
proof -
  let ?ops = "[Add (snapA 10 0) 2 ''1700000000000'' ''zz'' 0, Release ''res_1_b'']"
  let ?s = "shop [lineB 4 0 1 (Some ''res_1_b'') 0] [rowA 10 0 0, rowB 4 1 0]"
  let ?tbl = "[rowA 10 2 0, rowB 4 0 0]"
  let ?l = "lineA 10 0 2 (Some ''res_1700000000000_zz'') 0"
  have r: "inventory_table (runOps ?ops ?s) = ?tbl"
    by (simp add: cart_eval)
  have i: "items (runOps ?ops ?s) = [?l]"
    by (simp add: cart_eval)
  have g0: "getInventory (inventory_table ?s) ''A'' = Some (rowA 10 0 0)"
    by (simp add: getInventory_def demo_defs)
  have g: "getInventory ?tbl ''A'' = Some (rowA 10 2 0)"
    by (simp add: getInventory_def demo_defs)
  have f: "find (\<lambda>i. reservationId i = Some ''res_1700000000000_zz'') [?l] = Some ?l"
    by (simp add: demo_defs)
  have p: "itemProductId ?l = ''A''" "quantity ?l = 2"
    by (simp_all add: demo_defs itemProductId_def)
  have v: "max 0 (current_stock (rowA 10 0 0) - reserved_stock (rowA 10 2 0)) = 8"
    by (simp add: rowA_def)
  have e: "(rowA 10 2 0)\<lparr>reserved_stock := reserved_stock (rowA 10 2 0) + 3\<rparr> = rowA 10 5 0"
    "(rowA 10 2 0)\<lparr>reserved_stock := max 0 (reserved_stock (rowA 10 2 0) - 2)\<rparr> = rowA 10 0 0"
    by (simp_all add: rowA_def)
  have d: "distinct (map product_id (inventory_table ?s)) \<and> length (inventory_table ?s) \<le> 100"
    by (simp add: demo_defs)
  have ok: "p_id (product (snapA 10 2)) = ''A''
            \<and> fst (addItem (snapA 10 2) 3 ''1700000000500'' ''yy'' 0 (runOps ?ops ?s))"
    by (simp add: cart_eval)
  have 1: "getProductsWithInventory [productA, productB] ?tbl = [snapA 10 2, snapB 4 0]"
    by (simp add: service_eval)
  have 2: "loadProducts [productA, productB] ?tbl
      = [\<lparr>lp_product = productA, lp_inventory = Some (rowA 10 2 0), lp_available_stock = 8\<rparr>,
         \<lparr>lp_product = productB, lp_inventory = Some (rowB 4 0 0), lp_available_stock = 4\<rparr>]"
    by (simp add: loadProducts_def inventoryMap_def demo_defs Let_def)
  have m1: "snapA 10 2 \<in> set (getProductsWithInventory [productA, productB] ?tbl)"
    by (simp add: 1)
  have m2: "hd (loadProducts [productA, productB] ?tbl) \<in> set (loadProducts [productA, productB] ?tbl)"
    by (simp add: 2)
  have pA: "p_id (product (snapA 10 2)) = ''A''"
    "p_id (lp_product (hd (loadProducts [productA, productB] ?tbl))) = ''A''"
    unfolding 2 by (simp_all add: demo_defs)
  note t9 = available_stock_after_operations[OF g0, where ops = ?ops and q = 9 and n = 3
      and stamp = "''1700000000500''" and rnd = "''yy''" and t = "''res_1700000000000_zz''"
      and products = "[productA, productB]" and catalog = "[productA, productB]"
      and pwi = "snapA 10 2" and now = 0, unfolded r i]
  note t8 = available_stock_after_operations[OF g0, where ops = ?ops and q = 8 and n = 3
      and stamp = "''1700000000500''" and rnd = "''yy''" and t = "''res_1700000000000_zz''"
      and products = "[productA, productB]" and catalog = "[productA, productB]"
      and pwi = "snapA 10 2" and now = 0, unfolded r i]
  from t9 obtain row' where a:
    "getInventory ?tbl ''A'' = Some row'"
    "statsAvailable row' = max 0 (current_stock (rowA 10 0 0) - reserved_stock row')"
    "analyticsAvailable row' = max 0 (current_stock (rowA 10 0 0) - reserved_stock row')"
    "(reserveStock ''A'' 9 ?tbl = Inl ''Insufficient stock available'')
       = (max 0 (current_stock (rowA 10 0 0) - reserved_stock row') < 9)"
    "1 \<le> (9::int) \<longrightarrow> checkProductAvailability ?tbl ''A'' 9
       = (9 \<le> max 0 (current_stock (rowA 10 0 0) - reserved_stock row'))"
    "getInventory (inventory_table (runOps (?ops @ [Reserve ''A'' 3 ''1700000000500'' ''yy'']) ?s)) ''A''
       = Some (row'\<lparr>reserved_stock := reserved_stock row' + 3\<rparr>)"
    "\<forall>item. find (\<lambda>i. reservationId i = Some ''res_1700000000000_zz'') [?l] = Some item
                 \<and> itemProductId item = ''A'' \<longrightarrow>
           getInventory (inventory_table (runOps (?ops @ [Release ''res_1700000000000_zz'']) ?s)) ''A''
             = Some (row'\<lparr>reserved_stock := max 0 (reserved_stock row' - quantity item)\<rparr>)"
    "\<forall>e \<in> set (getProductsWithInventory [productA, productB] ?tbl).
        p_id (product e) = ''A'' \<longrightarrow>
          inventory e = row'
        \<and> available_stock e = max 0 (current_stock (rowA 10 0 0) - reserved_stock row')"
    "distinct (map product_id (inventory_table ?s)) \<and> length (inventory_table ?s) \<le> 100 \<longrightarrow>
       (\<forall>e \<in> set (loadProducts [productA, productB] ?tbl).
          p_id (lp_product e) = ''A'' \<longrightarrow>
            lp_inventory e = Some row'
          \<and> lp_available_stock e = max 0 (current_stock (rowA 10 0 0) - reserved_stock row'))"
    "p_id (product (snapA 10 2)) = ''A''
       \<and> fst (addItem (snapA 10 2) 3 ''1700000000500'' ''yy'' 0 (runOps ?ops ?s)) \<longrightarrow>
     getInventory (inventory_table
        (runOps (?ops @ [Add (snapA 10 2) 3 ''1700000000500'' ''yy'' 0]) ?s)) ''A''
       = Some (row'\<lparr>reserved_stock := reserved_stock row' + 3\<rparr>)"
    by (elim exE conjE) (rule that, assumption+)
  have row': "row' = rowA 10 2 0" using a(1) g by simp
  from t8 obtain row'' where b:
    "getInventory ?tbl ''A'' = Some row''"
    "1 \<le> (8::int) \<longrightarrow> checkProductAvailability ?tbl ''A'' 8
       = (8 \<le> max 0 (current_stock (rowA 10 0 0) - reserved_stock row''))"
    by (elim exE conjE) (rule that, assumption+)
  have row'': "row'' = rowA 10 2 0" using b(1) g by simp
  have 3: "statsAvailable (rowA 10 2 0) = 8" "analyticsAvailable (rowA 10 2 0) = 8"
    using a(2,3) by (simp_all only: row' v)
  have 4: "reserveStock ''A'' 9 ?tbl = Inl ''Insufficient stock available''"
    using a(4) by (simp add: row' v)
  have 5: "checkProductAvailability ?tbl ''A'' 9 = False"
    using a(5) by (simp add: row' v)
  have 6: "checkProductAvailability ?tbl ''A'' 8 = True"
    using b(2) by (simp add: row'' v)
  have 7: "getInventory (inventory_table (runOps (?ops @ [Reserve ''A'' 3 ''1700000000500'' ''yy'']) ?s)) ''A''
       = Some (rowA 10 5 0)"
    using a(6) by (simp only: row' e)
  have "getInventory (inventory_table (runOps (?ops @ [Release ''res_1700000000000_zz'']) ?s)) ''A''
             = Some (row'\<lparr>reserved_stock := max 0 (reserved_stock row' - quantity ?l)\<rparr>)"
    using a(7) f p(1) by blast
  then have 8: "getInventory (inventory_table (runOps (?ops @ [Release ''res_1700000000000_zz'']) ?s)) ''A''
             = Some (rowA 10 0 0)"
    by (simp only: row' p(2) e)
  have 9: "available_stock (snapA 10 2) = 8"
    using a(8)[rule_format, OF m1 pA(1)] by (simp only: row' v)
  have 10: "lp_available_stock (hd (loadProducts [productA, productB] ?tbl)) = 8"
    using a(9)[rule_format, OF d m2 pA(2)] by (simp only: row' v)
  have 11: "getInventory (inventory_table
        (runOps (?ops @ [Add (snapA 10 2) 3 ''1700000000500'' ''yy'' 0]) ?s)) ''A'' = Some (rowA 10 5 0)"
    using a(10)[rule_format, OF ok] by (simp only: row' e)
  show ?thesis using r 1 2 3 4 5 6 7 8 9 10 11 by simp
qed

text \<open>
  Claim C6 as stated, for every place where the available stock is reported, fails for the
  \<open>available_stock\<close> that a \<^verbatim>\<open>ProductWithInventory\<close> carries: it is computed when the
  product list is loaded, and no reserve or release writes it again. The list is loaded with
  10 units of A available; 2 units are added to the cart, which reserves them. The line of the
  cart, and the entry the product card shows, still say 10, where
  \<open>max 0 (current_stock - reserved_stock)\<close> of the row is 8, as a list loaded now says.
\<close>

theorem snapshot_stale_after_reserve:
  "getProductsWithInventory [productA] [rowA 10 0 0] = [snapA 10 0]
   \<and> runOps [Add (snapA 10 0) 2 ''1700000000000'' ''zz'' 0] (shop [] [rowA 10 0 0])
       = shop [lineA 10 0 2 (Some ''res_1700000000000_zz'') 0] [rowA 10 2 0]
   \<and> available_stock (cproduct (lineA 10 0 2 (Some ''res_1700000000000_zz'') 0)) = 10
   \<and> available_stock (snapA 10 0) = 10
   \<and> getInventory [rowA 10 2 0] ''A'' = Some (rowA 10 2 0)
   \<and> max 0 (current_stock (rowA 10 2 0) - reserved_stock (rowA 10 2 0)) = 8
   \<and> getProductsWithInventory [productA] [rowA 10 2 0] = [snapA 10 2]
   \<and> available_stock (snapA 10 2) = 8"
  by (simp add: service_eval addItem_def truthy_def)

text \<open>
  \<^verbatim>\<open>checkProductAvailability\<close> compares the difference as it is, so that its answer is the
  one of the floored value only from a quantity of 1 on, which is the default of the
  parameter: with more units reserved than in stock, a quantity of 0 is refused.
\<close>

lemma checkProductAvailability_below_one:
  "checkProductAvailability [rowA 1 3 0] ''A'' 0 = False
   \<and> checkProductAvailability [rowA 1 3 0] ''A'' 1 = False
   \<and> max 0 (current_stock (rowA 1 3 0) - reserved_stock (rowA 1 3 0)) = 0"
  by (simp add: service_eval)

section \<open>Stock counters and invariants\<close>

subsection \<open>The reserve of the inventory hook\<close>

text \<open>
  \<^verbatim>\<open>reserveStock\<close> of \<^verbatim>\<open>useInventoryManagement\<close> compares the quantity with the available
  stock of the row it has just read, and writes only when the quantity is covered.
\<close>

lemma reserveStock_refuses:
  assumes "getInventory tbl pid = Some row" "max 0 (current_stock row - reserved_stock row) < q"
  shows "reserveStock pid q tbl = Inl ''Insufficient stock available''"
  using assms(2) by (simp add: reserveStock_def assms(1) Let_def)

lemma reserveStock_reserves:
  assumes "getInventory tbl pid = Some row" "q \<le> max 0 (current_stock row - reserved_stock row)"
  shows "\<exists>tbl'. reserveStock pid q tbl = Inr tbl'
           \<and> getInventory tbl' pid = Some (row\<lparr>reserved_stock := reserved_stock row + q\<rparr>)"
proof -
  have "\<not> max 0 (current_stock row - reserved_stock row) < q" using assms(2) by linarith
  then have "reserveStock pid q tbl =
      Inr (updateItem tbl (inv_uid row) (inv_id row) (\<lambda>r. r\<lparr>reserved_stock := reserved_stock row + q\<rparr>))"
    by (simp add: reserveStock_def assms(1) Let_def)
  then show ?thesis by (simp add: getInventory_update_found[OF assms(1)])
qed

lemma reserveStock_no_row:
  "getInventory tbl pid = None \<Longrightarrow> reserveStock pid q tbl = Inl ''Product not found in inventory''"
  by (simp add: reserveStock_def)

subsection \<open>Reserved stock is never negative\<close>

lemma updateItem_reservedNonneg:
  assumes "reservedNonneg tbl" "\<And>r. 0 \<le> reserved_stock (f r)"
  shows "reservedNonneg (updateItem tbl u i f)"
  using assms by (auto simp: reservedNonneg_def updateItem_def)

lemma releaseRow_reservedNonneg:
  "reservedNonneg tbl \<Longrightarrow> reservedNonneg (releaseRow pid q tbl)"
  by (cases "getInventory tbl pid") (simp_all add: releaseRow_def updateItem_reservedNonneg)

lemma commitRow_reservedNonneg:
  "reservedNonneg tbl \<Longrightarrow> reservedNonneg (commitRow pid q tbl)"
  by (cases "getInventory tbl pid") (simp_all add: commitRow_def updateItem_reservedNonneg)

lemma releaseReservation_reservedNonneg:
  assumes "reservedNonneg (inventory_table s)"
  shows "reservedNonneg (inventory_table (releaseReservation t s))"
proof (cases "find (\<lambda>item. reservationId item = Some t) (items s)")
  case None
  then show ?thesis using assms by (simp add: releaseReservation_none)
next
  case (Some item)
  show ?thesis unfolding releaseReservation_table[OF Some]
    by (rule releaseRow_reservedNonneg[OF assms])
qed

lemma releaseAll_reservedNonneg:
  "reservedNonneg (inventory_table s) \<Longrightarrow> reservedNonneg (inventory_table (releaseAll xs s))"
proof (induction xs arbitrary: s)
  case Nil
  then show ?case by simp
next
  case (Cons x xs)
  show ?case
  proof (cases "truthy (reservationId x)")
    case True
    have "reservedNonneg (inventory_table (releaseReservation (the (reservationId x)) s))"
      by (rule releaseReservation_reservedNonneg[OF Cons.prems])
    then have "reservedNonneg (inventory_table (releaseAll xs (releaseReservation (the (reservationId x)) s)))"
      by (rule Cons.IH)
    then show ?thesis by (simp only: releaseAll_step True if_True)
  next
    case False
    have "reservedNonneg (inventory_table (releaseAll xs s))"
      by (rule Cons.IH[OF Cons.prems])
    then show ?thesis by (simp only: releaseAll_step False if_False)
  qed
qed

lemma commitInventory_reservedNonneg:
  "reservedNonneg tbl \<Longrightarrow> reservedNonneg (commitInventory xs tbl)"
proof (induction xs arbitrary: tbl)
  case Nil
  then show ?case by simp
next
  case (Cons x xs)
  have "reservedNonneg (commitRow (itemProductId x) (quantity x) tbl)"
    by (rule commitRow_reservedNonneg[OF Cons.prems])
  then have "reservedNonneg (commitInventory xs (commitRow (itemProductId x) (quantity x) tbl))"
    by (rule Cons.IH)
  then show ?case by (simp only: commitInventory_step)
qed

text \<open>
  Claim C8, as the code has it. Release and the commit step of the checkout floor what they
  write to \<open>reserved_stock\<close> at 0, and reserve adds the quantity: a table without negative
  \<open>reserved_stock\<close> stays one under release, under checkout, and under the reserve of a
  quantity that is not negative. The value is floored when it is written; no call is refused
  for it.
\<close>

theorem reserved_stock_stays_nonnegative:
  assumes "reservedNonneg (inventory_table s)"
  shows "reservedNonneg (inventory_table (releaseReservation t s))
       \<and> reservedNonneg (inventory_table (handleCheckout a email stamp s))
       \<and> (0 \<le> q \<longrightarrow> reservedNonneg (inventory_table (snd (reserveInventory pid q stamp rnd s))))"
proof -
  have 1: "reservedNonneg (inventory_table (releaseReservation t s))"
    by (rule releaseReservation_reservedNonneg[OF assms])
  have 2: "reservedNonneg (inventory_table (handleCheckout a email stamp s))"
  proof (cases "a \<and> items s \<noteq> []")
    case False
    then show ?thesis using assms by (auto simp: handleCheckout_def)
  next
    case True
    let ?s2 = "s\<lparr>orders_table := orders_table s @ [makeOrder email stamp s],
                 inventory_table := commitInventory (items s) (inventory_table s)\<rparr>"
    have "reservedNonneg (inventory_table ?s2)"
      using commitInventory_reservedNonneg[OF assms] by simp
    then have "reservedNonneg (inventory_table (releaseAll (items ?s2) ?s2))"
      by (rule releaseAll_reservedNonneg)
    then show ?thesis using True
      by (simp add: handleCheckout_unfold closeCart_def clearCart_def)
  qed
  have 3: "reservedNonneg (inventory_table (snd (reserveInventory pid q stamp rnd s)))" if "0 \<le> q"
  proof (cases "getInventory (inventory_table s) pid")
    case None
    then show ?thesis using assms by (simp add: reserveInventory_no_row)
  next
    case (Some row)
    have "row \<in> set (inventory_table s)" using getInventory_mem[OF Some] by simp
    then have "0 \<le> reserved_stock row" using assms by (simp add: reservedNonneg_def)
    then have "reservedNonneg (updateItem (inventory_table s) (inv_uid row) (inv_id row)
                 (\<lambda>r. r\<lparr>reserved_stock := reserved_stock row + q\<rparr>))"
      using that by (intro updateItem_reservedNonneg[OF assms]) simp
    then show ?thesis by (simp add: reserveInventory_row[OF Some])
  qed
  show ?thesis using 1 2 3 by blast
qed

text \<open>
  An instance where the floor acts: a line of 3 units of A, and a row with 1 unit reserved.
  Release and checkout both leave \<open>reserved_stock = 0\<close>; reserving 2 more gives 3.
\<close>

theorem reserved_stock_stays_nonnegative_witness:
  "reservedNonneg (inventory_table (shop [lineA 10 0 3 (Some ''res_1_a'') 0] [rowA 10 1 0]))
   \<and> reservedNonneg (inventory_table
         (releaseReservation ''res_1_a'' (shop [lineA 10 0 3 (Some ''res_1_a'') 0] [rowA 10 1 0])))
   \<and> inventory_table (releaseReservation ''res_1_a''
         (shop [lineA 10 0 3 (Some ''res_1_a'') 0] [rowA 10 1 0])) = [rowA 10 0 0]
   \<and> reservedNonneg (inventory_table (handleCheckout True ''ann@example.org'' ''1700000000000''
         (shop [lineA 10 0 3 (Some ''res_1_a'') 0] [rowA 10 1 0])))
   \<and> inventory_table (handleCheckout True ''ann@example.org'' ''1700000000000''
         (shop [lineA 10 0 3 (Some ''res_1_a'') 0] [rowA 10 1 0])) = [rowA 7 0 3]
   \<and> reservedNonneg (inventory_table (snd (reserveInventory ''A'' 2 ''1700000000000'' ''zz''
         (shop [lineA 10 0 3 (Some ''res_1_a'') 0] [rowA 10 1 0]))))
   \<and> inventory_table (snd (reserveInventory ''A'' 2 ''1700000000000'' ''zz''
         (shop [lineA 10 0 3 (Some ''res_1_a'') 0] [rowA 10 1 0]))) = [rowA 10 3 0]"
proof -
  let ?s = "shop [lineA 10 0 3 (Some ''res_1_a'') 0] [rowA 10 1 0]"
  have h: "reservedNonneg (inventory_table ?s)"
    by (simp add: reservedNonneg_def demo_defs)
  note t = reserved_stock_stays_nonnegative[OF h,
      of "''res_1_a''" True "''ann@example.org''" "''1700000000000''" 2 "''A''" "''zz''"]
  have a: "inventory_table (releaseReservation ''res_1_a'' ?s) = [rowA 10 0 0]"
    by (simp add: releaseReservation_def itemProductId_def getInventory_def updateItem_def
        demo_defs Let_def)
  have b: "inventory_table (handleCheckout True ''ann@example.org'' ''1700000000000'' ?s) = [rowA 7 0 3]"
    by (simp add: checkout_eval)
  have c: "inventory_table (snd (reserveInventory ''A'' 2 ''1700000000000'' ''zz'' ?s)) = [rowA 10 3 0]"
    by (simp add: reserveInventory_def getInventory_def updateItem_def demo_defs)
  have "reservedNonneg (inventory_table (releaseReservation ''res_1_a'' ?s))
      \<and> reservedNonneg (inventory_table (handleCheckout True ''ann@example.org'' ''1700000000000'' ?s))
      \<and> reservedNonneg (inventory_table (snd (reserveInventory ''A'' 2 ''1700000000000'' ''zz'' ?s)))"
    using t by simp
  then show ?thesis using h a b c by simp
qed

text \<open>
  Claim C8 as stated, for both counters, fails for \<open>current_stock\<close>, which the commit step
  of \<^verbatim>\<open>handleCheckout\<close> writes as \<^verbatim>\<open>current_stock - item.quantity\<close>. Two carts, Ann's and
  Bob's, share the table; one unit of A is in stock, and both carts show the product with 1
  unit available. Each adds the unit to the cart (the second reserve brings
  \<open>reserved_stock\<close> to 2), Ann checks out, and Bob's checkout then writes
  \<open>current_stock = -1\<close>.
\<close>

theorem checkout_writes_negative_stock:
  "addItem (snapA 1 0) 1 ''1700000000000'' ''aaa'' 0 (shop [] [rowA 1 0 0])
     = (True, shop [lineA 1 0 1 (Some ''res_1700000000000_aaa'') 0] [rowA 1 1 0])
   \<and> addItem (snapA 1 0) 1 ''1700000000100'' ''bbb'' 100 (shop [] [rowA 1 1 0])
     = (True, shop [lineA 1 0 1 (Some ''res_1700000000100_bbb'') 100] [rowA 1 2 0])
   \<and> inventory_table (handleCheckout True ''ann@example.org'' ''1700000000200''
        (shop [lineA 1 0 1 (Some ''res_1700000000000_aaa'') 0] [rowA 1 2 0])) = [rowA 0 0 1]
   \<and> inventory_table (handleCheckout True ''bob@example.org'' ''1700000000300''
        (shop [lineA 1 0 1 (Some ''res_1700000000100_bbb'') 100] [rowA 0 0 1])) = [rowA (- 1) 0 2]"
  by (simp add: addItem_def reserveInventory_def truthy_def handleCheckout_def clearCart_def
      closeCart_def releaseReservation_def itemProductId_def getInventory_def updateItem_def
      demo_defs Let_def)

subsection \<open>The cart keeps one line per product and one token per line\<close>

text \<open>
  Release only filters lines out and rewrites rows in place; \<^verbatim>\<open>addItem\<close> appends a line for
  a product that has none, or rewrites the one line of the product, and the token it writes
  is new to the cart.
\<close>

lemma releaseReservation_keeps_invariants:
  "distinctProducts (items s) \<Longrightarrow> distinctProducts (items (releaseReservation t s))"
  "uniqueTokens (items s) \<Longrightarrow> uniqueTokens (items (releaseReservation t s))"
  "map rowKey (inventory_table (releaseReservation t s)) = map rowKey (inventory_table s)"
proof -
  show "distinctProducts (items s) \<Longrightarrow> distinctProducts (items (releaseReservation t s))"
    by (simp add: distinctProducts_def releaseReservation_items distinct_map_filter)
  show "uniqueTokens (items s) \<Longrightarrow> uniqueTokens (items (releaseReservation t s))"
    by (simp add: releaseReservation_items uniqueTokens_filter)
  show "map rowKey (inventory_table (releaseReservation t s)) = map rowKey (inventory_table s)"
  proof (cases "find (\<lambda>item. reservationId item = Some t) (items s)")
    case None
    then show ?thesis by (simp add: releaseReservation_none)
  next
    case (Some item)
    show ?thesis by (simp only: releaseReservation_table[OF Some] releaseRow_keys)
  qed
qed

lemma append_line_invariants:
  assumes dp: "distinctProducts xs" and ut: "uniqueTokens xs"
    and fresh: "\<forall>i \<in> set xs. reservationId i \<noteq> reservationId new"
    and nopid: "\<forall>i \<in> set xs. itemProductId i \<noteq> itemProductId new"
  shows "distinctProducts (xs @ [new])" "uniqueTokens (xs @ [new])"
proof -
  have "itemProductId new \<notin> set (map itemProductId xs)" using nopid by auto
  then show "distinctProducts (xs @ [new])" using dp by (simp add: distinctProducts_def)
  show "uniqueTokens (xs @ [new])"
    unfolding uniqueTokens_def
  proof (intro ballI impI)
    fix i j assume i: "i \<in> set (xs @ [new])" and j: "j \<in> set (xs @ [new])"
      and e: "reservationId i \<noteq> None \<and> reservationId i = reservationId j"
    consider "i \<in> set xs" "j \<in> set xs" | "i = new" "j = new"
      | "i \<in> set xs" "j = new" | "i = new" "j \<in> set xs"
      using i j by auto
    then show "i = j"
    proof cases
      case 1
      obtain t where "reservationId i = Some t" using e by blast
      then show ?thesis using uniqueTokensD[OF ut 1(1) 1(2), of t] e by simp
    next
      case 2
      then show ?thesis by simp
    next
      case 3
      then show ?thesis using fresh e by blast
    next
      case 4
      then show ?thesis using fresh e by metis
    qed
  qed
qed

lemma merge_line_invariants:
  assumes dp: "distinctProducts xs" and ut: "uniqueTokens xs"
    and fresh: "\<forall>i \<in> set xs. reservationId i \<noteq> Some t"
  shows "distinctProducts (map (\<lambda>i. if itemProductId i = p
                                     then i\<lparr>quantity := n, reservationId := Some t\<rparr> else i) xs)"
    and "uniqueTokens (map (\<lambda>i. if itemProductId i = p
                                     then i\<lparr>quantity := n, reservationId := Some t\<rparr> else i) xs)"
proof -
  let ?u = "\<lambda>i. if itemProductId i = p then i\<lparr>quantity := n, reservationId := Some t\<rparr> else i"
  have pid: "\<And>i. itemProductId (?u i) = itemProductId i" by (simp add: itemProductId_def)
  have "map itemProductId (map ?u xs) = map itemProductId xs"
    by (simp add: pid del: if_split cong: if_cong)
  then show "distinctProducts (map ?u xs)" using dp by (simp only: distinctProducts_def)
  have inj: "inj_on itemProductId (set xs)" using dp by (simp add: distinctProducts_def distinct_map)
  show "uniqueTokens (map ?u xs)"
    unfolding uniqueTokens_def
  proof (intro ballI impI)
    fix i' j' assume i': "i' \<in> set (map ?u xs)" and j': "j' \<in> set (map ?u xs)"
      and e: "reservationId i' \<noteq> None \<and> reservationId i' = reservationId j'"
    have "i' \<in> ?u ` set xs" using i' by (simp only: set_map)
    then obtain i where i: "i \<in> set xs" "i' = ?u i" by blast
    have "j' \<in> ?u ` set xs" using j' by (simp only: set_map)
    then obtain j where j: "j \<in> set xs" "j' = ?u j" by blast
    show "i' = j'"
    proof (cases "itemProductId i = p")
      case ip: True
      show ?thesis
      proof (cases "itemProductId j = p")
        case True
        then have "i = j" using inj i(1) j(1) ip by (simp add: inj_on_def)
        then show ?thesis using i(2) j(2) by simp
      next
        case False
        then have "reservationId j' = reservationId j" using j(2) by simp
        moreover have "reservationId i' = Some t" using i(2) ip by simp
        ultimately show ?thesis using e fresh j(1) by metis
      qed
    next
      case ip: False
      then have ri: "reservationId i' = reservationId i" "i' = i" using i(2) by simp_all
      show ?thesis
      proof (cases "itemProductId j = p")
        case True
        then have "reservationId j' = Some t" using j(2) by simp
        then show ?thesis using e fresh i(1) ri by metis
      next
        case False
        then have rj: "j' = j" using j(2) by simp
        from e have a: "reservationId i' \<noteq> None" and b: "reservationId i' = reservationId j'"
          by blast+
        have c: "reservationId i \<noteq> None" using a unfolding ri(1) .
        then obtain tk where tk: "reservationId i = Some tk" by (cases "reservationId i") simp_all
        have "reservationId i = reservationId j" using b unfolding ri(1) rj .
        then have "reservationId j = Some tk" using tk by simp
        then have "i = j" using uniqueTokensD[OF ut i(1) j(1) tk] by simp
        then show ?thesis using ri rj by simp
      qed
    qed
  qed
qed

lemma reserveInventory_keys:
  "map rowKey (inventory_table (snd (reserveInventory pid q stamp rnd s))) = map rowKey (inventory_table s)"
proof (cases "getInventory (inventory_table s) pid")
  case None
  then show ?thesis by (simp add: reserveInventory_no_row)
next
  case (Some row)
  have "map rowKey (updateItem (inventory_table s) (inv_uid row) (inv_id row)
          (\<lambda>r. r\<lparr>reserved_stock := reserved_stock row + q\<rparr>)) = map rowKey (inventory_table s)"
    by (rule updateItem_keys) (simp add: rowKey_def)
  then show ?thesis by (simp add: reserveInventory_row[OF Some])
qed

lemma addItem_keeps_invariants:
  assumes dp: "distinctProducts (items s)" and ut: "uniqueTokens (items s)"
    and fresh: "\<forall>i \<in> set (items s). reservationId i \<noteq> Some (''res_'' @ stamp @ ''_'' @ rnd)"
  shows "distinctProducts (items (snd (addItem pwi qty stamp rnd now s)))"
    and "uniqueTokens (items (snd (addItem pwi qty stamp rnd now s)))"
proof -
  define t where "t = ''res_'' @ stamp @ ''_'' @ rnd"
  define p where "p = p_id (product pwi)"
  define ex where "ex = find (\<lambda>item. itemProductId item = p) (items s)"
  define total where "total = (case ex of None \<Rightarrow> 0 | Some item \<Rightarrow> quantity item) + qty"
  have fr: "\<forall>i \<in> set (items s). reservationId i \<noteq> Some t" using fresh by (simp only: t_def)
  have tne: "t \<noteq> []" by (simp add: t_def)
  have goal: "distinctProducts (items (snd (addItem pwi qty stamp rnd now s)))
            \<and> uniqueTokens (items (snd (addItem pwi qty stamp rnd now s)))"
  proof (cases "total > available_stock pwi \<or> getInventory (inventory_table s) p = None")
    case True
    then have "items (snd (addItem pwi qty stamp rnd now s)) = items s"
      by (auto simp: addItem_def Let_def total_def ex_def p_def reserveInventory_no_row truthy_def)
    then show ?thesis using dp ut by simp
  next
    case False
    then obtain row where row: "getInventory (inventory_table s) p = Some row" by auto
    have le: "\<not> total > available_stock pwi" using False by simp
    note r = reserveInventory_row[OF row, of qty stamp rnd, folded t_def]
    show ?thesis
    proof (cases ex)
      case None
      let ?new = "\<lparr>cproduct = pwi, quantity = qty, reservationId = Some t, addedAt = now\<rparr>"
      have its: "items (snd (addItem pwi qty stamp rnd now s)) = items s @ [?new]"
        using le None
        by (simp add: addItem_def Let_def total_def ex_def[symmetric] p_def[symmetric] r truthy_def tne)
      have a: "\<forall>i \<in> set (items s). reservationId i \<noteq> reservationId ?new" using fr by simp
      have "\<forall>i \<in> set (items s). itemProductId i \<noteq> p"
        using None by (simp add: ex_def find_None_iff)
      then have b: "\<forall>i \<in> set (items s). itemProductId i \<noteq> itemProductId ?new"
        by (simp add: itemProductId_def p_def)
      show ?thesis unfolding its using append_line_invariants[OF dp ut a b] by simp
    next
      case (Some item)
      have its: "items (snd (addItem pwi qty stamp rnd now s)) =
          map (\<lambda>i. if itemProductId i = p then i\<lparr>quantity := total, reservationId := Some t\<rparr> else i)
            (items s)"
        using le Some
        by (simp add: addItem_def Let_def total_def ex_def[symmetric] p_def[symmetric] r truthy_def tne)
      show ?thesis unfolding its using merge_line_invariants[OF dp ut fr] by simp
    qed
  qed
  show "distinctProducts (items (snd (addItem pwi qty stamp rnd now s)))" using goal by simp
  show "uniqueTokens (items (snd (addItem pwi qty stamp rnd now s)))" using goal by simp
qed

text \<open>
  The same holds for \<^verbatim>\<open>removeItem\<close>, \<^verbatim>\<open>updateQuantity\<close> and \<^verbatim>\<open>refreshReservations\<close>, and
  no operation changes the keys of the rows of the inventory table.
\<close>

lemma filter_keeps_invariants:
  assumes "distinctProducts xs" "uniqueTokens xs"
  shows "distinctProducts (filter P xs)" "uniqueTokens (filter P xs)"
  using assms by (simp_all add: distinctProducts_def distinct_map_filter uniqueTokens_filter)

lemma filter_trivial: "\<exists>P. xs = filter P xs"
  by (rule exI[of _ "\<lambda>_. True"]) simp

lemma release_if_held_items:
  "\<exists>P. items (case reservationId item of None \<Rightarrow> s
              | Some t \<Rightarrow> if t \<noteq> [] then releaseReservation t s else s) = filter P (items s)"
proof (cases "reservationId item")
  case None
  then show ?thesis using filter_trivial[of "items s"] by simp
next
  case (Some t)
  show ?thesis
  proof (cases "t = []")
    case True
    then show ?thesis using Some filter_trivial[of "items s"] by simp
  next
    case False
    have "\<exists>P. items (releaseReservation t s) = filter P (items s)"
      unfolding releaseReservation_items by (rule exI) (rule refl)
    then show ?thesis using Some False by simp
  qed
qed

lemma removeItem_keeps_invariants:
  assumes "distinctProducts (items s)" "uniqueTokens (items s)"
  shows "distinctProducts (items (removeItem pid s))" "uniqueTokens (items (removeItem pid s))"
proof -
  define s1 where "s1 = (case find (\<lambda>item. itemProductId item = pid) (items s) of
                  None \<Rightarrow> s
                | Some item \<Rightarrow>
                    (case reservationId item of
                       None \<Rightarrow> s
                     | Some t \<Rightarrow> if t \<noteq> [] then releaseReservation t s else s))"
  have "\<exists>P. items s1 = filter P (items s)"
  proof (cases "find (\<lambda>item. itemProductId item = pid) (items s)")
    case None
    then show ?thesis unfolding s1_def using filter_trivial[of "items s"] by simp
  next
    case (Some item)
    then show ?thesis unfolding s1_def using release_if_held_items[where item=item and s=s] by simp
  qed
  then obtain P where P: "items s1 = filter P (items s)" by blast
  have its: "items (removeItem pid s) = filter (\<lambda>item. itemProductId item \<noteq> pid) (filter P (items s))"
    unfolding removeItem_def s1_def[symmetric] by (simp add: Let_def P)
  have a: "distinctProducts (filter P (items s))" "uniqueTokens (filter P (items s))"
    using filter_keeps_invariants[OF assms] by simp_all
  show "distinctProducts (items (removeItem pid s))" "uniqueTokens (items (removeItem pid s))"
    unfolding its using filter_keeps_invariants[OF a] by simp_all
qed

lemma updateQuantity_keeps_invariants:
  assumes dp: "distinctProducts (items s)" and ut: "uniqueTokens (items s)"
    and fresh: "\<forall>i \<in> set (items s). reservationId i \<noteq> Some (''res_'' @ stamp @ ''_'' @ rnd)"
  shows "distinctProducts (items (snd (updateQuantity pid q stamp rnd s)))
       \<and> uniqueTokens (items (snd (updateQuantity pid q stamp rnd s)))"
proof (cases "q \<le> 0")
  case True
  then show ?thesis using removeItem_keeps_invariants[OF dp ut] by (simp add: updateQuantity_def)
next
  case pos: False
  show ?thesis
  proof (cases "find (\<lambda>item. itemProductId item = pid) (items s)")
    case None
    then show ?thesis using pos dp ut by (simp add: updateQuantity_def)
  next
    case (Some item)
    show ?thesis
    proof (cases "q > available_stock (cproduct item) + quantity item")
      case True
      then show ?thesis using pos dp ut Some by (simp add: updateQuantity_def Let_def)
    next
      case False
      define t where "t = ''res_'' @ stamp @ ''_'' @ rnd"
      have tne: "t \<noteq> []" by (simp add: t_def)
      define s1 where "s1 = (case reservationId item of None \<Rightarrow> s
                    | Some t \<Rightarrow> if t \<noteq> [] then releaseReservation t s else s)"
      obtain P where P: "items s1 = filter P (items s)"
        unfolding s1_def using release_if_held_items[where item=item and s=s] by blast
      have a: "distinctProducts (items s1)" "uniqueTokens (items s1)"
        unfolding P using filter_keeps_invariants[OF dp ut] by simp_all
      have fr: "\<forall>i \<in> set (items s1). reservationId i \<noteq> Some t"
        unfolding P using fresh by (simp add: t_def)
      show ?thesis
      proof (cases "getInventory (inventory_table s1) pid")
        case None
        have "snd (updateQuantity pid q stamp rnd s) = s1"
          using pos False
          by (simp add: updateQuantity_def Some Let_def s1_def[symmetric]
              reserveInventory_no_row[OF None] truthy_def)
        then show ?thesis using a by simp
      next
        case row: (Some row)
        note r = reserveInventory_row[OF row, of q stamp rnd, folded t_def]
        have "items (snd (updateQuantity pid q stamp rnd s)) =
                map (\<lambda>i. if itemProductId i = pid then i\<lparr>quantity := q, reservationId := Some t\<rparr> else i)
                  (items s1)"
          using pos False
          by (simp add: updateQuantity_def Some Let_def s1_def[symmetric] r truthy_def tne)
        then show ?thesis using merge_line_invariants[OF a fr, of pid q] by simp
      qed
    qed
  qed
qed

lemma refreshLoop_items_filter: "\<exists>P. items (refreshLoop now xs s) = filter P (items s)"
  using refreshLoop_items by blast

lemma refreshReservations_keeps_invariants:
  assumes "distinctProducts (items s)" "uniqueTokens (items s)"
  shows "distinctProducts (items (refreshReservations now s))
       \<and> uniqueTokens (items (refreshReservations now s))"
proof -
  obtain P where "items (refreshReservations now s) = filter P (items s)"
    unfolding refreshReservations_def using refreshLoop_items_filter by blast
  then show ?thesis using filter_keeps_invariants[OF assms] by simp
qed


lemma commitInventory_keys: "map rowKey (commitInventory xs tbl) = map rowKey tbl"
proof (induction xs arbitrary: tbl)
  case Nil
  then show ?case by simp
next
  case (Cons x xs)
  show ?case by (simp only: commitInventory_step Cons.IH commitRow_keys)
qed

lemma releaseAll_keys: "map rowKey (inventory_table (releaseAll xs s)) = map rowKey (inventory_table s)"
proof (induction xs arbitrary: s)
  case Nil
  then show ?case by simp
next
  case (Cons x xs)
  show ?case
    by (cases "truthy (reservationId x)")
       (simp_all only: releaseAll_step Cons.IH releaseReservation_keeps_invariants(3) if_True if_False)
qed

lemma refreshLoop_keys:
  "map rowKey (inventory_table (refreshLoop now xs s)) = map rowKey (inventory_table s)"
proof (induction xs arbitrary: s)
  case Nil
  then show ?case by simp
next
  case (Cons x xs)
  show ?case
    by (cases "isExpired now x")
       (simp_all only: refreshLoop_step Cons.IH releaseReservation_keeps_invariants(3) if_True if_False)
qed

lemma table_keys_kept:
  "map rowKey (inventory_table (snd (addItem pwi qty stamp rnd now s))) = map rowKey (inventory_table s)"
  "map rowKey (inventory_table (refreshReservations now s)) = map rowKey (inventory_table s)"
  "map rowKey (inventory_table (handleCheckout a email stamp s)) = map rowKey (inventory_table s)"
proof -
  show "map rowKey (inventory_table (snd (addItem pwi qty stamp rnd now s))) = map rowKey (inventory_table s)"
  proof -
    have "inventory_table (snd (addItem pwi qty stamp rnd now s)) = inventory_table s
        \<or> inventory_table (snd (addItem pwi qty stamp rnd now s))
            = inventory_table (snd (reserveInventory (p_id (product pwi)) qty stamp rnd s))"
      by (cases "reserveInventory (p_id (product pwi)) qty stamp rnd s")
         (simp add: addItem_def Let_def)
    then show ?thesis using reserveInventory_keys by metis
  qed
  show "map rowKey (inventory_table (refreshReservations now s)) = map rowKey (inventory_table s)"
    by (simp add: refreshReservations_def refreshLoop_keys)
  show "map rowKey (inventory_table (handleCheckout a email stamp s)) = map rowKey (inventory_table s)"
  proof (cases "a \<and> items s \<noteq> []")
    case False
    then show ?thesis by (auto simp: handleCheckout_def)
  next
    case True
    then show ?thesis
      by (simp add: handleCheckout_unfold closeCart_def clearCart_def releaseAll_keys commitInventory_keys)
  qed
qed

end
